theory Spec2Isabelle
  imports Complex_Main "HOL-Library.Sublist"
begin

section \<open>JavaScript strings\<close>

text \<open>
  The scripts work on JavaScript strings.  A string is modelled as a \<^typ>\<open>string\<close>, that is
  a list of 8-bit characters: the code units U+0000 to U+00FF.  The three string methods the
  scripts call are written out for that range.
\<close>

text \<open>\<^verbatim>\<open>String.prototype.includes\<close>: \<open>js_includes s d\<close> is the source's \<^verbatim>\<open>s.includes(d)\<close>,
  a search for \<open>d\<close> at every start position of \<open>s\<close>.\<close>

fun js_includes :: "string \<Rightarrow> string \<Rightarrow> bool" where
  "js_includes [] d = (d = [])"
| "js_includes (c # cs) d = (prefix d (c # cs) \<or> js_includes cs d)"

text \<open>White space and line terminators of ECMAScript below U+0100: TAB, LF, VT, FF, CR,
  SPACE and NO-BREAK SPACE.\<close>

definition isWhiteSpace :: "char \<Rightarrow> bool" where
  "isWhiteSpace c = ((of_char c :: nat) \<in> {9, 10, 11, 12, 13, 32, 160})"

text \<open>\<^verbatim>\<open>String.prototype.trim\<close>.\<close>

definition trim :: "string \<Rightarrow> string" where
  "trim s = rev (dropWhile isWhiteSpace (rev (dropWhile isWhiteSpace s)))"

text \<open>\<^verbatim>\<open>String.prototype.toLowerCase\<close> on one code unit below U+0100: the letters A to Z and
  the capital letters U+00C0 to U+00DE (without the multiplication sign U+00D7) move up
  by 32; every other code unit stays.\<close>

definition lowerChar :: "char \<Rightarrow> char" where
  "lowerChar c =
     (let n = (of_char c :: nat)
      in if (65 \<le> n \<and> n \<le> 90) \<or> (192 \<le> n \<and> n \<le> 222 \<and> n \<noteq> 215)
         then char_of (n + 32) else c)"

definition toLowerCase :: "string \<Rightarrow> string" where
  "toLowerCase s = map lowerChar s"

section \<open>Domain classifier\<close>

text \<open>
  \<^verbatim>\<open>isAmazonURL\<close> is declared twice, in \<^verbatim>\<open>background.js\<close> and in \<^verbatim>\<open>popup.js\<close>, with
  the same text:
  \<^verbatim>\<open>
  const amazonDomains = ['amazon.com', 'amazon.co.uk', 'amazon.ca', 'amazon.de',
                         'amazon.fr', 'amazon.it', 'amazon.es', 'a.co', 'amzn.to'];
  return amazonDomains.some(domain => url.includes(domain));
  \<close>
\<close>

definition amazonDomains :: "string list" where
  "amazonDomains =
     [''amazon.com'', ''amazon.co.uk'', ''amazon.ca'', ''amazon.de'',
      ''amazon.fr'', ''amazon.it'', ''amazon.es'', ''a.co'', ''amzn.to'']"

definition isAmazonURL :: "string \<Rightarrow> bool" where
  "isAmazonURL url = list_ex (\<lambda>domain. js_includes url domain) amazonDomains"

text \<open>
  The web app (\<^verbatim>\<open>App.js\<close>, \<^verbatim>\<open>analyzeProduct\<close>) has its own two checks before it sends
  anything: \<^verbatim>\<open>if (!url.trim()) ...\<close> and \<^verbatim>\<open>if (!url.includes('amazon.')) ...\<close>.
  \<open>app_url_blank\<close> is the first condition, \<open>app_url_accepted\<close> says that the URL passes both.
\<close>

definition app_url_blank :: "string \<Rightarrow> bool" where
  "app_url_blank url = (trim url = [])"

definition app_url_accepted :: "string \<Rightarrow> bool" where
  "app_url_accepted url = (\<not> app_url_blank url \<and> js_includes url ''amazon.'')"

section \<open>Data model\<close>

text \<open>
  The analysis result that the remote endpoint returns, with the properties the scripts
  read.  A property that the contract marks optional is an \<open>option\<close>.  A price is the
  rational value of a finite JavaScript number; the price history chart computes on prices
  in the arithmetic of JavaScript numbers, with rounding, overflow and \<^verbatim>\<open>NaN\<close> (see
  \<open>jsnum\<close> below).  The widths of the factor bars and of the savings bar are computed
  with rationals, without rounding.  Text that is only displayed (currency formatting,
  \<^verbatim>\<open>toFixed\<close>, \<^verbatim>\<open>toUpperCase\<close> of a label, emoji) is left out of the views.
\<close>

record product_summary =
  title :: string
  image_url :: "string option"

record deal_analysis =
  quality :: string
  score :: int
  deal_text :: string
  current_price :: rat
  average_price :: rat
  min_price :: rat
  max_price :: rat
  percentile :: rat
  deal_savings_percent :: rat

record inflation_analysis =
  inflation_detected :: bool
  inflation_text :: string

record price_point =
  date :: string
  price :: rat

record alternative =
  alt_title :: string
  alt_price :: rat
  savings :: rat
  savings_percent :: rat

record analysis_result =
  result_url :: string
  asin :: string
  affiliate_link :: string
  product_data :: product_summary
  verdict :: string
  impulse_score :: int
  confidence_score :: int
  impulse_factors :: "string \<rightharpoonup> int"
  deal :: "deal_analysis option"
  inflation :: "inflation_analysis option"
  price_history :: "price_point list option"
  alternatives :: "alternative list"
  pros :: "string list"
  cons :: "string list"
  recommendation :: string

text \<open>Errors that the scripts throw or that the engine throws for them, each with its
  \<^verbatim>\<open>message\<close>.\<close>

datatype js_error = Error string | TypeError string | SyntaxError string

fun message :: "js_error \<Rightarrow> string" where
  "message (Error m) = m"
| "message (TypeError m) = m"
| "message (SyntaxError m) = m"

text \<open>The error of the engine when a property is read from \<^verbatim>\<open>undefined\<close>.\<close>

definition undefined_read :: "string \<Rightarrow> js_error" where
  "undefined_read prop =
     TypeError (''Cannot read properties of undefined (reading '' @ [CHR 0x27] @ prop @ [CHR 0x27] @ '')'')"

section \<open>Result presentation\<close>

subsection \<open>Verdict bucket\<close>

text \<open>
  \<^verbatim>\<open>popup.js\<close> and \<^verbatim>\<open>content.js\<close>, both in \<^verbatim>\<open>showResults\<close>:
  \<^verbatim>\<open>
  const verdictClass = data.verdict.toLowerCase().includes('buy') ? 'buy' :
                       data.verdict.toLowerCase().includes('wait') ? 'wait' : 'skip';
  \<close>
\<close>

definition verdictClass :: "string \<Rightarrow> string" where
  "verdictClass v =
     (if js_includes (toLowerCase v) ''buy'' then ''buy''
      else if js_includes (toLowerCase v) ''wait'' then ''wait'' else ''skip'')"

text \<open>\<^verbatim>\<open>App.js\<close>, \<^verbatim>\<open>getVerdictStyle\<close>: four classes, grey when no word is found.\<close>

definition getVerdictStyle :: "string \<Rightarrow> string" where
  "getVerdictStyle v =
     (let lower = toLowerCase v
      in if js_includes lower ''buy'' then ''bg-green-500 text-white''
         else if js_includes lower ''wait'' then ''bg-yellow-500 text-white''
         else if js_includes lower ''skip'' then ''bg-red-500 text-white''
         else ''bg-gray-500 text-white'')"

subsection \<open>Risk colour band and bars\<close>

text \<open>\<^verbatim>\<open>popup.js\<close>, \<^verbatim>\<open>getScoreColor\<close>; \<^verbatim>\<open>content.js\<close> computes \<^verbatim>\<open>scoreColor\<close> with the
  same thresholds and colours.\<close>

definition getScoreColor :: "int \<Rightarrow> string" where
  "getScoreColor s =
     (if s \<ge> 80 then ''#f44336''
      else if s \<ge> 60 then ''#ff9800''
      else if s \<ge> 40 then ''#ffc107''
      else ''#4caf50'')"

text \<open>\<^verbatim>\<open>App.js\<close>, \<^verbatim>\<open>getScoreColor\<close>.\<close>

definition app_getScoreColor :: "int \<Rightarrow> string" where
  "app_getScoreColor s =
     (if s \<ge> 80 then ''text-red-600 bg-red-100''
      else if s \<ge> 60 then ''text-orange-600 bg-orange-100''
      else if s \<ge> 40 then ''text-yellow-600 bg-yellow-100''
      else ''text-green-600 bg-green-100'')"

text \<open>
  The score bar.  All three surfaces write the score itself into the style:
  \<^verbatim>\<open>style="width: ${data.impulse_score}%"\<close> (\<^verbatim>\<open>popup.js\<close>, \<^verbatim>\<open>content.js\<close>) and
  \<^verbatim>\<open>style={{ width: `${analysis.impulse_score}%` }}\<close> (\<^verbatim>\<open>App.js\<close>).
\<close>

definition score_fill_width :: "analysis_result \<Rightarrow> int" where
  "score_fill_width data = impulse_score data"

text \<open>
  \<^verbatim>\<open>App.js\<close>, \<^verbatim>\<open>ImpulseFactors\<close>, for each of the six factor keys:
  \<^verbatim>\<open>
  const factorValue = impulseFactors[factor.key] || 0;
  const maxValue = 30;
  const percentage = (factorValue / maxValue) * 100;
  ... style={{ width: `${Math.max(5, percentage)}%` }}
  \<close>
\<close>

definition factor_keys :: "string list" where
  "factor_keys =
     [''price_manipulation'', ''scarcity_tactics'', ''emotional_triggers'',
      ''urgency_language'', ''deal_authenticity'', ''volatility_factor'']"

definition factorValue :: "(string \<rightharpoonup> int) \<Rightarrow> string \<Rightarrow> int" where
  "factorValue impulseFactors key = (case impulseFactors key of None \<Rightarrow> 0 | Some v \<Rightarrow> v)"

definition maxValue :: rat where
  "maxValue = 30"

definition percentage :: "int \<Rightarrow> rat" where
  "percentage v = (of_int v / maxValue) * 100"

definition factor_bar_width :: "(string \<rightharpoonup> int) \<Rightarrow> string \<Rightarrow> rat" where
  "factor_bar_width impulseFactors key = max 5 (percentage (factorValue impulseFactors key))"

definition ImpulseFactors :: "(string \<rightharpoonup> int) \<Rightarrow> (string \<times> rat \<times> int) list" where
  "ImpulseFactors impulseFactors =
     map (\<lambda>key. (key, factor_bar_width impulseFactors key, factorValue impulseFactors key))
       factor_keys"

subsection \<open>Price history chart\<close>

text \<open>
  The chart computes with JavaScript numbers, which are IEEE 754 binary64 values: a
  finite value (modelled by the rational number it denotes), \<^verbatim>\<open>NaN\<close> or an infinity.
  The result of an operation on finite values is the exact result rounded to the nearest value
  of the format, ties to the even significand; a result of magnitude
  \<open>2 ^ 1024 - 2 ^ 970\<close> or more becomes an infinity.  The finite values are the
  multiples \<open>m * 2 ^ e\<close> with \<open>\<bar>m\<bar> < 2 ^ 53\<close> and \<open>- 1074 \<le> e \<le> 971\<close>;
  \<open>quantum r\<close> is the exponent of the grid around \<open>r\<close>, found by a search upwards from
  the exponent \<open>- 1074\<close> of the subnormal values.

  The sign of a zero is not modelled: a zero is the positive zero.  With finite prices the
  chart never has a negative zero as a divisor: its divisors are \<^verbatim>\<open>maxPrice - minPrice\<close>
  and \<^verbatim>\<open>priceHistory.length - 1\<close>, which are not negative.
\<close>

datatype jsnum = Num rat | NaN | PosInf | NegInf

fun qsearch :: "nat \<Rightarrow> int \<Rightarrow> rat \<Rightarrow> int" where
  "qsearch 0 k r = k"
| "qsearch (Suc n) k r = (if \<bar>r\<bar> < 2 powi (k + 53) then k else qsearch n (k + 1) r)"

definition quantum :: "rat \<Rightarrow> int" where
  "quantum r = qsearch 2045 (- 1074) r"

definition round_half_even :: "rat \<Rightarrow> int" where
  "round_half_even q =
     (let f = \<lfloor>q\<rfloor>; d = q - of_int f
      in if d < 1 / 2 then f else if 1 / 2 < d then f + 1 else if even f then f else f + 1)"

definition round_double :: "rat \<Rightarrow> jsnum" where
  "round_double r =
     (if 2 ^ 1024 - 2 ^ 970 \<le> \<bar>r\<bar> then (if 0 < r then PosInf else NegInf)
      else Num (of_int (round_half_even (r / 2 powi quantum r)) * 2 powi quantum r))"

text \<open>The operators \<^verbatim>\<open>-\<close>, \<^verbatim>\<open>*\<close> and \<^verbatim>\<open>/\<close> on numbers.\<close>

fun js_sub :: "jsnum \<Rightarrow> jsnum \<Rightarrow> jsnum" where
  "js_sub (Num a) (Num b) = round_double (a - b)"
| "js_sub NaN y = NaN"
| "js_sub x NaN = NaN"
| "js_sub PosInf PosInf = NaN"
| "js_sub NegInf NegInf = NaN"
| "js_sub PosInf y = PosInf"
| "js_sub NegInf y = NegInf"
| "js_sub x PosInf = NegInf"
| "js_sub x NegInf = PosInf"

fun js_mul :: "jsnum \<Rightarrow> jsnum \<Rightarrow> jsnum" where
  "js_mul (Num a) (Num b) = round_double (a * b)"
| "js_mul NaN y = NaN"
| "js_mul x NaN = NaN"
| "js_mul PosInf (Num b) = (if b = 0 then NaN else if 0 < b then PosInf else NegInf)"
| "js_mul NegInf (Num b) = (if b = 0 then NaN else if 0 < b then NegInf else PosInf)"
| "js_mul (Num a) PosInf = (if a = 0 then NaN else if 0 < a then PosInf else NegInf)"
| "js_mul (Num a) NegInf = (if a = 0 then NaN else if 0 < a then NegInf else PosInf)"
| "js_mul PosInf PosInf = PosInf"
| "js_mul PosInf NegInf = NegInf"
| "js_mul NegInf PosInf = NegInf"
| "js_mul NegInf NegInf = PosInf"

fun js_div :: "jsnum \<Rightarrow> jsnum \<Rightarrow> jsnum" where
  "js_div (Num a) (Num b) =
     (if b = 0 then (if a = 0 then NaN else if 0 < a then PosInf else NegInf)
      else round_double (a / b))"
| "js_div NaN y = NaN"
| "js_div x NaN = NaN"
| "js_div (Num a) PosInf = Num 0"
| "js_div (Num a) NegInf = Num 0"
| "js_div PosInf (Num b) = (if 0 \<le> b then PosInf else NegInf)"
| "js_div NegInf (Num b) = (if 0 \<le> b then NegInf else PosInf)"
| "js_div x y = NaN"

text \<open>
  \<^verbatim>\<open>App.js\<close>, \<^verbatim>\<open>PriceHistoryChart\<close>:
  \<^verbatim>\<open>
  if (!priceHistory || priceHistory.length === 0) return null;
  const maxPrice = Math.max(...priceHistory.map(p => p.price));
  const minPrice = Math.min(...priceHistory.map(p => p.price));
  const priceRange = maxPrice - minPrice;
  ... points={priceHistory.map((point, index) => {
        const x = (index / (priceHistory.length - 1)) * 100;
        const y = 100 - ((point.price - minPrice) / priceRange) * 100;
        return `${x},${y}`; })}
  \<close>
  \<open>Math_max\<close> and \<open>Math_min\<close> are used on a list with at least one price only; they
  select one of the prices and round nothing.  An index and \<^verbatim>\<open>priceHistory.length - 1\<close>
  are integers below \<open>2 ^ 32\<close>, which are values of the format, so they are written
  without rounding.
\<close>

fun Math_max :: "rat list \<Rightarrow> jsnum" where
  "Math_max [] = NegInf"
| "Math_max (x # xs) = Num (fold max xs x)"

fun Math_min :: "rat list \<Rightarrow> jsnum" where
  "Math_min [] = PosInf"
| "Math_min (x # xs) = Num (fold min xs x)"

definition chart_x :: "nat \<Rightarrow> nat \<Rightarrow> jsnum" where
  "chart_x len index = js_mul (js_div (Num (of_nat index)) (Num (of_nat len - 1))) (Num 100)"

definition chart_y :: "rat \<Rightarrow> jsnum \<Rightarrow> rat \<Rightarrow> jsnum" where
  "chart_y minPrice priceRange p =
     js_sub (Num 100) (js_mul (js_div (js_sub (Num p) (Num minPrice)) priceRange) (Num 100))"

record chart =
  points :: "(jsnum \<times> jsnum) list"
  top_label :: rat
  bottom_label :: rat
  first_date :: string
  last_date :: string

definition PriceHistoryChart :: "price_point list option \<Rightarrow> chart option" where
  "PriceHistoryChart priceHistory =
     (case priceHistory of
        None \<Rightarrow> None
      | Some [] \<Rightarrow> None
      | Some (p # ps) \<Rightarrow>
          (case (Math_max (map price (p # ps)), Math_min (map price (p # ps))) of
             (Num maxPrice, Num minPrice) \<Rightarrow>
               let priceRange = js_sub (Num maxPrice) (Num minPrice)
               in Some \<lparr> points =
                           map (\<lambda>(index, point).
                                  (chart_x (length (p # ps)) index,
                                   chart_y minPrice priceRange (price point)))
                               (enumerate 0 (p # ps)),
                         top_label = maxPrice,
                         bottom_label = minPrice,
                         first_date = date p,
                         last_date = date (last (p # ps)) \<rparr>
           | _ \<Rightarrow> None))"

section \<open>The analysis request\<close>

subsection \<open>The endpoint as the scripts see it\<close>

text \<open>
  A response body is either text that is no JSON (with the message of the
  \<^verbatim>\<open>SyntaxError\<close> that parsing it throws) or a JSON object: the error object
  \<^verbatim>\<open>{"detail": ...}\<close> with its optional detail, or an analysis result.  A request either
  is rejected (network fault, with the message of the rejection) or resolves to a response
  with a status.  \<open>network\<close> gives the endpoint's answer to a POST of
  \<^verbatim>\<open>{ amazon_url: url }\<close>.  One call of a script's function is modelled as one
  sequential run; \<^verbatim>\<open>await\<close> is the place where the answer is taken from the network.
\<close>

datatype json = ErrorBody "string option" | ResultBody analysis_result

datatype body = Malformed string string | Json json

record http_response =
  status :: nat
  response_body :: body

datatype fetch_result = Rejected string | Resolved http_response

type_synonym network = "string \<Rightarrow> fetch_result"

text \<open>\<^verbatim>\<open>response.ok\<close>: the status is in the range 200 to 299.\<close>

definition ok :: "http_response \<Rightarrow> bool" where
  "ok response = (200 \<le> status response \<and> status response \<le> 299)"

text \<open>\<^verbatim>\<open>response.json()\<close>.\<close>

definition response_json :: "http_response \<Rightarrow> js_error + json" where
  "response_json response =
     (case response_body response of
        Malformed raw msg \<Rightarrow> Inl (SyntaxError msg)
      | Json j \<Rightarrow> Inr j)"

text \<open>The property \<^verbatim>\<open>detail\<close> of a parsed body.\<close>

fun detail :: "json \<Rightarrow> string option" where
  "detail (ErrorBody d) = d"
| "detail (ResultBody a) = None"

text \<open>\<^verbatim>\<open>x || fallback\<close> for a string that may be missing: a missing and an empty string are
  falsy.\<close>

fun or_else :: "string option \<Rightarrow> string \<Rightarrow> string" where
  "or_else None fallback = fallback"
| "or_else (Some d) fallback = (if d = [] then fallback else d)"

text \<open>
  \<^verbatim>\<open>try { body } catch (error) { handler } finally { final }\<close> over a state: the body
  leaves a state and possibly a thrown error; the handler runs on a thrown error; the
  final block runs on both paths.  The handlers and final blocks of the scripts throw
  nothing.
\<close>

definition try_catch_finally ::
  "('s \<Rightarrow> 'e option \<times> 's) \<Rightarrow> ('e \<Rightarrow> 's \<Rightarrow> 's) \<Rightarrow> ('s \<Rightarrow> 's) \<Rightarrow> 's \<Rightarrow> 's" where
  "try_catch_finally block handler final s =
     (case block s of
        (None, s1) \<Rightarrow> final s1
      | (Some e, s1) \<Rightarrow> final (handler e s1))"

datatype display = Block | NoDisplay

subsection \<open>Popup (\<^verbatim>\<open>popup.js\<close>)\<close>

record popup_card =
  card_title :: string
  card_verdictClass :: string
  card_verdict :: string
  card_score :: int
  card_score_color :: string
  card_score_width :: int
  card_deal :: "(string \<times> int) option"
  card_alternatives :: "nat option"
  card_buy_link :: string
  card_full_analysis :: string

text \<open>The three sections of the popup, the text of the error section, the card in the
  results section, the \<^verbatim>\<open>disabled\<close> property of the two buttons that start an analysis
  (\<^verbatim>\<open>analyzeCurrentBtn\<close>, \<^verbatim>\<open>analyzeManualBtn\<close>), and the requests sent so far (the
  \<^verbatim>\<open>amazon_url\<close> of each POST).\<close>

record popup =
  loadingSection :: display
  resultsSection :: display
  errorSection :: display
  errorText :: string
  resultsHTML :: "popup_card option"
  analyzeCurrentBtn_disabled :: bool
  analyzeManualBtn_disabled :: bool
  posted :: "string list"

definition showLoading :: "popup \<Rightarrow> popup" where
  "showLoading st = st\<lparr>loadingSection := Block, resultsSection := NoDisplay, errorSection := NoDisplay\<rparr>"

definition hideLoading :: "popup \<Rightarrow> popup" where
  "hideLoading st = st\<lparr>loadingSection := NoDisplay\<rparr>"

definition hideError :: "popup \<Rightarrow> popup" where
  "hideError st = st\<lparr>errorSection := NoDisplay\<rparr>"

definition hideResults :: "popup \<Rightarrow> popup" where
  "hideResults st = st\<lparr>resultsSection := NoDisplay\<rparr>"

definition showError :: "string \<Rightarrow> popup \<Rightarrow> popup" where
  "showError msg st = hideResults (hideLoading (st\<lparr>errorText := msg, errorSection := Block\<rparr>))"

text \<open>
  \<^verbatim>\<open>showResults(data)\<close>: \<^verbatim>\<open>hideLoading(); hideError();\<close> then the card is built.  On an
  object without \<^verbatim>\<open>verdict\<close> the first read, \<^verbatim>\<open>data.verdict.toLowerCase()\<close>, throws.
\<close>

definition popup_render :: "analysis_result \<Rightarrow> popup_card" where
  "popup_render data =
     \<lparr> card_title = title (product_data data),
       card_verdictClass = verdictClass (verdict data),
       card_verdict = verdict data,
       card_score = impulse_score data,
       card_score_color = getScoreColor (impulse_score data),
       card_score_width = score_fill_width data,
       card_deal = map_option (\<lambda>d. (quality d, score d)) (deal data),
       card_alternatives =
         (if length (alternatives data) > 0 then Some (length (alternatives data)) else None),
       card_buy_link = affiliate_link data,
       card_full_analysis = result_url data \<rparr>"

fun showResults :: "json \<Rightarrow> popup \<Rightarrow> js_error option \<times> popup" where
  "showResults (ErrorBody d) st = (Some (undefined_read ''toLowerCase''), hideError (hideLoading st))"
| "showResults (ResultBody data) st =
     (None, (hideError (hideLoading st))\<lparr>resultsHTML := Some (popup_render data), resultsSection := Block\<rparr>)"

text \<open>
  \<^verbatim>\<open>
  async function analyzeProduct(url) {
      if (!isAmazonURL(url)) { showError('Please provide a valid Amazon URL'); return; }
      showLoading(); hideError(); hideResults();
      try {
          const response = await fetch(`${API_BASE_URL}/analyze`, { method: 'POST', ...
              body: JSON.stringify({ amazon_url: url }) });
          if (!response.ok) {
              const errorData = await response.json();
              throw new Error(errorData.detail || 'Analysis failed');
          }
          const data = await response.json();
          showResults(data);
      } catch (error) { showError(`Analysis failed: ${error.message}`); }
      finally { hideLoading(); }
  }
  \<close>
\<close>

text \<open>
  A call is modelled in two parts, split where the function waits for the answer of
  \<^verbatim>\<open>fetch\<close>: \<open>popup_begin\<close> gives the state in which the popup waits (the request has
  been sent), \<open>popup_resume\<close> runs the rest of the \<^verbatim>\<open>try\<close> statement on the answer.
\<close>

definition popup_begin :: "string \<Rightarrow> popup \<Rightarrow> popup" where
  "popup_begin url st = (hideResults (hideError (showLoading st)))\<lparr>posted := posted st @ [url]\<rparr>"

definition popup_response :: "fetch_result \<Rightarrow> popup \<Rightarrow> js_error option \<times> popup" where
  "popup_response answer st =
     (case answer of
        Rejected msg \<Rightarrow> (Some (TypeError msg), st)
      | Resolved response \<Rightarrow>
          if \<not> ok response then
            (case response_json response of
               Inl e \<Rightarrow> (Some e, st)
             | Inr errorData \<Rightarrow> (Some (Error (or_else (detail errorData) ''Analysis failed'')), st))
          else
            (case response_json response of
               Inl e \<Rightarrow> (Some e, st)
             | Inr data \<Rightarrow> showResults data st))"

definition popup_resume :: "fetch_result \<Rightarrow> popup \<Rightarrow> popup" where
  "popup_resume answer =
     try_catch_finally
       (popup_response answer)
       (\<lambda>error. showError (''Analysis failed: '' @ message error))
       hideLoading"

definition analyzeProduct :: "network \<Rightarrow> string \<Rightarrow> popup \<Rightarrow> popup" where
  "analyzeProduct net url st =
     (if \<not> isAmazonURL url then showError ''Please provide a valid Amazon URL'' st
      else popup_resume (net url) (popup_begin url st))"

subsection \<open>Background relay (\<^verbatim>\<open>background.js\<close>)\<close>

text \<open>
  \<^verbatim>\<open>
  async function handleProductAnalysis(url, sendResponse) {
      try {
          const response = await fetch('.../api/analyze', { method: 'POST', ... });
          if (!response.ok) { throw new Error('Analysis failed'); }
          const data = await response.json();
          sendResponse({ success: true, data });
      } catch (error) { sendResponse({ success: false, error: error.message }); }
  }
  \<close>
  The result is the message given to \<^verbatim>\<open>sendResponse\<close>; the function sends one POST on
  every call and checks nothing before.
\<close>

datatype relay_response = Success json | Failure string

definition handleProductAnalysis :: "network \<Rightarrow> string \<Rightarrow> relay_response" where
  "handleProductAnalysis net url =
     (case net url of
        Rejected msg \<Rightarrow> Failure msg
      | Resolved response \<Rightarrow>
          if \<not> ok response then Failure (message (Error ''Analysis failed''))
          else (case response_json response of
                  Inl e \<Rightarrow> Failure (message e)
                | Inr data \<Rightarrow> Success data))"

subsection \<open>Content script (\<^verbatim>\<open>content.js\<close>)\<close>

text \<open>
  The page as the content script sees it: \<^verbatim>\<open>location.href\<close>,
  \<^verbatim>\<open>location.pathname\<close>, whether \<^verbatim>\<open>#productTitle\<close> exists, the two injected nodes
  (\<^verbatim>\<open>whyimpulse-analyze-btn\<close>, \<^verbatim>\<open>whyimpulse-results-panel\<close>) when present, and the
  requests sent so far.  The button is the triggering control: its label is one of the two
  templates and \<^verbatim>\<open>style.pointerEvents\<close> is unset, \<^verbatim>\<open>'auto'\<close> or \<^verbatim>\<open>'none'\<close>.
\<close>

datatype button_label = AnalyzeLabel | AnalyzingLabel

datatype pointer_events = Unset | Auto | PointerNone

record button =
  label :: button_label
  pointerEvents :: pointer_events

record content_card =
  cc_verdictClass :: string
  cc_verdict :: string
  cc_score :: int
  cc_score_color :: string
  cc_score_width :: int
  cc_deal :: "(string \<times> int) option"
  cc_buy_link :: string
  cc_full_analysis :: string
  cc_alternatives :: "nat option"

datatype panel_html = EmptyPanel | ResultsPanel content_card | ErrorPanel string

record panel =
  panel_html :: panel_html
  panel_display :: display

record page =
  href :: string
  pathname :: string
  productTitle :: bool
  analyze_btn :: "button option"
  results_panel :: "panel option"
  page_posted :: "string list"

definition isProductPage :: "page \<Rightarrow> bool" where
  "isProductPage pg =
     (js_includes (pathname pg) ''/dp/'' \<or> js_includes (pathname pg) ''/gp/product/'' \<or>
      productTitle pg)"

definition getCurrentProductURL :: "page \<Rightarrow> string" where
  "getCurrentProductURL pg = href pg"

definition createAnalyzeButton :: button where
  "createAnalyzeButton = \<lparr> label = AnalyzeLabel, pointerEvents = Unset \<rparr>"

definition createResultsPanel :: panel where
  "createResultsPanel = \<lparr> panel_html = EmptyPanel, panel_display = NoDisplay \<rparr>"

text \<open>\<^verbatim>\<open>showAnalyzeButton\<close>: nothing off a product page; otherwise an existing button is
  removed and a new one appended, and a panel is appended when there is none.\<close>

definition showAnalyzeButton :: "page \<Rightarrow> page" where
  "showAnalyzeButton pg =
     (if \<not> isProductPage pg then pg
      else pg\<lparr> analyze_btn := Some createAnalyzeButton,
               results_panel :=
                 (case results_panel pg of None \<Rightarrow> Some createResultsPanel | Some p \<Rightarrow> Some p) \<rparr>)"

definition content_render :: "analysis_result \<Rightarrow> content_card" where
  "content_render data =
     \<lparr> cc_verdictClass = verdictClass (verdict data),
       cc_verdict = verdict data,
       cc_score = impulse_score data,
       cc_score_color = getScoreColor (impulse_score data),
       cc_score_width = score_fill_width data,
       cc_deal = map_option (\<lambda>d. (quality d, score d)) (deal data),
       cc_buy_link = affiliate_link data,
       cc_full_analysis = result_url data,
       cc_alternatives =
         (if length (alternatives data) > 0 then Some (length (alternatives data)) else None) \<rparr>"

text \<open>\<^verbatim>\<open>showResults(data)\<close> and \<^verbatim>\<open>showError(message)\<close> of the content script: both return
  at once when the panel is missing.\<close>

definition content_showResults :: "json \<Rightarrow> page \<Rightarrow> js_error option \<times> page" where
  "content_showResults data pg =
     (case results_panel pg of
        None \<Rightarrow> (None, pg)
      | Some p \<Rightarrow>
          (case data of
             ErrorBody d \<Rightarrow> (Some (undefined_read ''toLowerCase''), pg)
           | ResultBody a \<Rightarrow>
               (None, pg\<lparr>results_panel :=
                  Some (p\<lparr>panel_html := ResultsPanel (content_render a), panel_display := Block\<rparr>)\<rparr>)))"

definition content_showError :: "string \<Rightarrow> page \<Rightarrow> page" where
  "content_showError msg pg =
     (case results_panel pg of
        None \<Rightarrow> pg
      | Some p \<Rightarrow> pg\<lparr>results_panel := Some (p\<lparr>panel_html := ErrorPanel msg, panel_display := Block\<rparr>)\<rparr>)"

text \<open>
  \<^verbatim>\<open>
  async function analyzeCurrentProduct() {
      const button = ...; const panel = ...;
      if (!button || !panel) return;
      button.innerHTML = `... Analyzing... `;
      button.style.pointerEvents = 'none';
      try {
          const response = await fetch(`${API_BASE_URL}/analyze`, { method: 'POST', ...
              body: JSON.stringify({ amazon_url: getCurrentProductURL() }) });
          if (!response.ok) { throw new Error('Analysis failed'); }
          const data = await response.json();
          showResults(data);
      } catch (error) { showError('Analysis failed. Please try again.'); }
      finally {
          button.innerHTML = `... Analyze with WHY IMPULSE? `;
          button.style.pointerEvents = 'auto';
      }
  }
  \<close>
\<close>

definition set_button :: "button_label \<Rightarrow> pointer_events \<Rightarrow> page \<Rightarrow> page" where
  "set_button l pe pg =
     pg\<lparr>analyze_btn := map_option (\<lambda>b. b\<lparr>label := l, pointerEvents := pe\<rparr>) (analyze_btn pg)\<rparr>"

text \<open>The call in two parts, as for the popup: \<open>content_begin\<close> is \<open>None\<close> when the
  function returns at once, else the state in which it waits for the answer.\<close>

definition content_begin :: "page \<Rightarrow> page option" where
  "content_begin pg =
     (if analyze_btn pg = None \<or> results_panel pg = None then None
      else Some ((set_button AnalyzingLabel PointerNone pg)
                   \<lparr>page_posted := page_posted pg @ [getCurrentProductURL pg]\<rparr>))"

definition content_response :: "fetch_result \<Rightarrow> page \<Rightarrow> js_error option \<times> page" where
  "content_response answer pg =
     (case answer of
        Rejected msg \<Rightarrow> (Some (TypeError msg), pg)
      | Resolved response \<Rightarrow>
          if \<not> ok response then (Some (Error ''Analysis failed''), pg)
          else (case response_json response of
                  Inl e \<Rightarrow> (Some e, pg)
                | Inr data \<Rightarrow> content_showResults data pg))"

definition content_resume :: "fetch_result \<Rightarrow> page \<Rightarrow> page" where
  "content_resume answer =
     try_catch_finally
       (content_response answer)
       (\<lambda>error. content_showError ''Analysis failed. Please try again.'')
       (set_button AnalyzeLabel Auto)"

definition analyzeCurrentProduct :: "network \<Rightarrow> page \<Rightarrow> page" where
  "analyzeCurrentProduct net pg =
     (case content_begin pg of
        None \<Rightarrow> pg
      | Some waiting \<Rightarrow> content_resume (net (getCurrentProductURL pg)) waiting)"

subsection \<open>Navigation watcher (\<^verbatim>\<open>content.js\<close>, \<^verbatim>\<open>init\<close>)\<close>

text \<open>
  \<^verbatim>\<open>
  function init() {
      showAnalyzeButton();
      let lastUrl = location.href;
      new MutationObserver(() => {
          const url = location.href;
          if (url !== lastUrl) {
              lastUrl = url;
              setTimeout(showAnalyzeButton, 1000);
          }
      }).observe(document, { subtree: true, childList: true });
  }
  \<close>
  The state of the watcher: the page, \<^verbatim>\<open>lastUrl\<close>, the timers that \<^verbatim>\<open>setTimeout\<close> has set
  and that have not fired (each with the time in milliseconds at which it is due), and the
  clock.  Three events: the page changes its URL through the history API, the observer's
  callback runs, time passes (and every timer that is due fires, in the order set).
\<close>

record watcher =
  doc :: page
  lastUrl :: string
  timers :: "nat list"
  clock :: nat

datatype event = Navigate string string | Mutation | Advance nat

definition init :: "page \<Rightarrow> nat \<Rightarrow> watcher" where
  "init pg now = \<lparr> doc = showAnalyzeButton pg, lastUrl = href pg, timers = [], clock = now \<rparr>"

definition setTimeout :: "nat \<Rightarrow> watcher \<Rightarrow> watcher" where
  "setTimeout delay w = w\<lparr>timers := timers w @ [clock w + delay]\<rparr>"

definition observer_callback :: "watcher \<Rightarrow> watcher" where
  "observer_callback w =
     (let url = href (doc w)
      in if url \<noteq> lastUrl w then setTimeout 1000 (w\<lparr>lastUrl := url\<rparr>) else w)"

definition advance :: "nat \<Rightarrow> watcher \<Rightarrow> watcher" where
  "advance d w =
     (let t = clock w + d
      in w\<lparr> doc := fold (\<lambda>due. showAnalyzeButton) (filter (\<lambda>due. due \<le> t) (timers w)) (doc w),
            timers := filter (\<lambda>due. \<not> due \<le> t) (timers w),
            clock := t \<rparr>)"

fun step :: "event \<Rightarrow> watcher \<Rightarrow> watcher" where
  "step (Navigate new_href new_pathname) w = w\<lparr>doc := (doc w)\<lparr>href := new_href, pathname := new_pathname\<rparr>\<rparr>"
| "step Mutation w = observer_callback w"
| "step (Advance d) w = advance d w"

definition run :: "event list \<Rightarrow> watcher \<Rightarrow> watcher" where
  "run evs w = fold step evs w"

text \<open>A URL change as the watcher meets it: the navigation, then the callback for the
  mutation it causes.\<close>

definition url_changes :: "(string \<times> string) list \<Rightarrow> event list" where
  "url_changes us = concat (map (\<lambda>(h, p). [Navigate h p, Mutation]) us)"

text \<open>URL changes with time between them: each entry is the time that passes before the
  change, the new URL and the new path.  \<open>dues c cs\<close> lists the times at which the
  re-evaluations set for these changes are due, when the clock shows \<open>c\<close> at the start.\<close>

definition staggered :: "(nat \<times> string \<times> string) list \<Rightarrow> event list" where
  "staggered cs = concat (map (\<lambda>(gap, h, p). [Advance gap, Navigate h p, Mutation]) cs)"

fun dues :: "nat \<Rightarrow> (nat \<times> string \<times> string) list \<Rightarrow> nat list" where
  "dues c [] = []"
| "dues c ((gap, h, p) # cs) = (c + gap + 1000) # dues (c + gap) cs"

subsection \<open>Web app (\<^verbatim>\<open>App.js\<close>)\<close>

text \<open>
  The four state variables of \<^verbatim>\<open>EnhancedImpulseSaver\<close> (\<^verbatim>\<open>url\<close>, \<^verbatim>\<open>loading\<close>,
  \<^verbatim>\<open>analysis\<close>, \<^verbatim>\<open>error\<close>) and the requests sent so far.  The Analyze button has
  \<^verbatim>\<open>disabled={loading}\<close>.  \<^verbatim>\<open>axios.post\<close> rejects on a network fault (the error has no
  \<^verbatim>\<open>response\<close>) and on a status outside 200 to 299 (the error carries the response);
  \<^verbatim>\<open>response.data\<close> is the parsed body, or the text itself when it is no JSON.
\<close>

record app_state =
  input_url :: string
  loading :: bool
  analysis :: "body option"
  error :: string
  app_posted :: "string list"

datatype axios_error = AxiosError "http_response option"

text \<open>\<^verbatim>\<open>error.response?.data?.detail\<close>.\<close>

fun error_detail :: "axios_error \<Rightarrow> string option" where
  "error_detail (AxiosError None) = None"
| "error_detail (AxiosError (Some response)) =
     (case response_body response of
        Malformed raw msg \<Rightarrow> None
      | Json j \<Rightarrow> detail j)"

text \<open>
  \<^verbatim>\<open>
  const analyzeProduct = async () => {
    if (!url.trim()) { setError("Please enter an Amazon URL"); return; }
    if (!url.includes('amazon.')) { setError("Please enter a valid Amazon URL"); return; }
    setLoading(true); setError(""); setAnalysis(null);
    try {
      const response = await axios.post(`${API}/analyze`, { amazon_url: url });
      setAnalysis(response.data);
    } catch (error) {
      setError(error.response?.data?.detail || "Failed to analyze product. Please try again.");
    } finally { setLoading(false); }
  };
  \<close>
\<close>

text \<open>The call in two parts, as for the popup: \<open>app_begin\<close> is the state in which the
  component waits for the answer, after the two checks.\<close>

definition app_begin :: "app_state \<Rightarrow> app_state" where
  "app_begin st =
     st\<lparr>loading := True, error := [], analysis := None,
        app_posted := app_posted st @ [input_url st]\<rparr>"

definition app_response :: "fetch_result \<Rightarrow> app_state \<Rightarrow> axios_error option \<times> app_state" where
  "app_response answer st =
     (case answer of
        Rejected msg \<Rightarrow> (Some (AxiosError None), st)
      | Resolved response \<Rightarrow>
          if ok response then (None, st\<lparr>analysis := Some (response_body response)\<rparr>)
          else (Some (AxiosError (Some response)), st))"

definition app_resume :: "fetch_result \<Rightarrow> app_state \<Rightarrow> app_state" where
  "app_resume answer =
     try_catch_finally
       (app_response answer)
       (\<lambda>e s. s\<lparr>error := or_else (error_detail e) ''Failed to analyze product. Please try again.''\<rparr>)
       (\<lambda>s. s\<lparr>loading := False\<rparr>)"

definition app_analyzeProduct :: "network \<Rightarrow> app_state \<Rightarrow> app_state" where
  "app_analyzeProduct net st =
     (if app_url_blank (input_url st) then st\<lparr>error := ''Please enter an Amazon URL''\<rparr>
      else if \<not> js_includes (input_url st) ''amazon.'' then
        st\<lparr>error := ''Please enter a valid Amazon URL''\<rparr>
      else app_resume (net (input_url st)) (app_begin st))"

subsection \<open>Rendering a result in the web app\<close>

text \<open>
  \<^verbatim>\<open>getDealQualityColor\<close>: \<^verbatim>\<open>colors[quality] || 'bg-gray-500 text-white'\<close> on the five own
  keys of \<^verbatim>\<open>colors\<close> (properties inherited from \<^verbatim>\<open>Object.prototype\<close> are not modelled).
\<close>

definition getDealQualityColor :: "string \<Rightarrow> string" where
  "getDealQualityColor q =
     (case map_of
        [(''excellent'', ''bg-green-500 text-white''),
         (''very good'', ''bg-green-400 text-white''),
         (''good'', ''bg-blue-500 text-white''),
         (''fair'', ''bg-yellow-500 text-white''),
         (''poor'', ''bg-red-500 text-white'')] q of
        Some c \<Rightarrow> c
      | None \<Rightarrow> ''bg-gray-500 text-white'')"

record deal_card =
  quality_class :: string
  quality_label :: string
  deal_score :: int
  savings_positive :: bool
  savings_bar_width :: rat
  better_than :: rat
  inflation_warning :: "string option"

text \<open>
  \<^verbatim>\<open>DealAnalysisCard = ({ dealAnalysis, inflationAnalysis }) => ...\<close>.  The component has no
  guard: its first expression reads \<^verbatim>\<open>dealAnalysis.quality\<close>, its last block reads
  \<^verbatim>\<open>inflationAnalysis.inflation_detected\<close>.  Reading a property of \<^verbatim>\<open>undefined\<close> throws a
  \<^verbatim>\<open>TypeError\<close>.
\<close>

definition DealAnalysisCard ::
  "deal_analysis option \<Rightarrow> inflation_analysis option \<Rightarrow> js_error + deal_card" where
  "DealAnalysisCard dealAnalysis inflationAnalysis =
     (case dealAnalysis of
        None \<Rightarrow> Inl (undefined_read ''quality'')
      | Some d \<Rightarrow>
          (case inflationAnalysis of
             None \<Rightarrow> Inl (undefined_read ''inflation_detected'')
           | Some i \<Rightarrow>
               Inr \<lparr> quality_class = getDealQualityColor (quality d),
                     quality_label = quality d,
                     deal_score = score d,
                     savings_positive = (deal_savings_percent d > 0),
                     savings_bar_width = min \<bar>deal_savings_percent d\<bar> 50,
                     better_than = 100 - percentile d,
                     inflation_warning =
                       (if inflation_detected i then Some (inflation_text i) else None) \<rparr>))"

text \<open>\<^verbatim>\<open>AlternativesSection\<close>: the comparison line of one alternative,
  \<^verbatim>\<open>alt.savings > 0 ? `${alt.savings_percent}% cheaper` : 'Similar price'\<close>.\<close>

datatype savings_frame = Cheaper rat | SimilarPrice

definition savings_framing :: "alternative \<Rightarrow> savings_frame" where
  "savings_framing alt = (if savings alt > 0 then Cheaper (savings_percent alt) else SimilarPrice)"

record app_view =
  view_title :: string
  view_image :: "string option"
  view_verdict :: string
  view_verdict_style :: string
  view_confidence :: int
  view_deal :: deal_card
  view_score :: int
  view_score_color :: string
  view_score_width :: int
  view_chart :: "chart option"
  view_factors :: "(string \<times> rat \<times> int) list"
  view_alternatives :: "(string \<times> savings_frame) list"
  view_pros :: "string list"
  view_cons :: "string list"
  view_recommendation :: string

text \<open>
  The block \<^verbatim>\<open>{analysis && ( ... )}\<close> of the component for an analysis result.
  \<^verbatim>\<open><DealAnalysisCard dealAnalysis={analysis.deal_analysis}
  inflationAnalysis={analysis.inflation_analysis} />\<close> stands in it without a condition
  (the chart has one: \<^verbatim>\<open>analysis.price_history && analysis.price_history.length > 0\<close>).
  An error thrown by a component while rendering leaves nothing of the block rendered.
\<close>

definition render_analysis :: "analysis_result \<Rightarrow> js_error + app_view" where
  "render_analysis a =
     (case DealAnalysisCard (deal a) (inflation a) of
        Inl e \<Rightarrow> Inl e
      | Inr dc \<Rightarrow>
          Inr \<lparr> view_title = title (product_data a),
                view_image = image_url (product_data a),
                view_verdict = verdict a,
                view_verdict_style = getVerdictStyle (verdict a),
                view_confidence = confidence_score a,
                view_deal = dc,
                view_score = impulse_score a,
                view_score_color = app_getScoreColor (impulse_score a),
                view_score_width = score_fill_width a,
                view_chart = PriceHistoryChart (price_history a),
                view_factors = ImpulseFactors (impulse_factors a),
                view_alternatives = map (\<lambda>alt. (alt_title alt, savings_framing alt)) (alternatives a),
                view_pros = pros a,
                view_cons = cons a,
                view_recommendation = recommendation a \<rparr>)"

text \<open>The results block for the state: nothing while \<^verbatim>\<open>analysis\<close> is \<^verbatim>\<open>null\<close> or an
  empty text; for an object without \<^verbatim>\<open>product_data\<close> the first read,
  \<^verbatim>\<open>analysis.product_data.image_url\<close>, throws.\<close>

definition render_results :: "app_state \<Rightarrow> js_error + app_view option" where
  "render_results st =
     (case analysis st of
        None \<Rightarrow> Inr None
      | Some (Malformed raw msg) \<Rightarrow>
          if raw = [] then Inr None else Inl (undefined_read ''image_url'')
      | Some (Json (ErrorBody d)) \<Rightarrow> Inl (undefined_read ''image_url'')
      | Some (Json (ResultBody a)) \<Rightarrow>
          (case render_analysis a of Inl e \<Rightarrow> Inl e | Inr v \<Rightarrow> Inr (Some v)))"




section \<open>Example inputs\<close>

text \<open>Inputs at which the theorems below are evaluated.\<close>

definition sample_result :: analysis_result where
  "sample_result =
     \<lparr> result_url = ''https://www.amazon.com/dp/B000000001'',
       asin = ''B000000001'',
       affiliate_link = ''https://www.amazon.com/dp/B000000001?tag=whyimpulse-20'',
       product_data = \<lparr> title = ''Electric kettle'', image_url = None \<rparr>,
       verdict = ''WAIT for a better price'',
       impulse_score = 72,
       confidence_score = 70,
       impulse_factors = [''price_manipulation'' \<mapsto> 12, ''urgency_language'' \<mapsto> 0],
       deal = None,
       inflation = None,
       price_history = None,
       alternatives = [],
       pros = [''Heats fast''],
       cons = [''Loud''],
       recommendation = ''Wait for the next price drop.'' \<rparr>"

definition sample_history :: "price_point list" where
  "sample_history =
     [\<lparr>date = ''d1'', price = 100\<rparr>, \<lparr>date = ''d2'', price = 150\<rparr>, \<lparr>date = ''d3'', price = 100\<rparr>]"

definition flat_history :: "price_point list" where
  "flat_history = [\<lparr>date = ''d1'', price = 50\<rparr>, \<lparr>date = ''d2'', price = 50\<rparr>]"

definition single_point_history :: "price_point list" where
  "single_point_history = [\<lparr>date = ''d1'', price = 50\<rparr>]"

definition popup_idle :: popup where
  "popup_idle =
     \<lparr> loadingSection = NoDisplay, resultsSection = NoDisplay, errorSection = NoDisplay,
       errorText = [], resultsHTML = None, analyzeCurrentBtn_disabled = False,
       analyzeManualBtn_disabled = False, posted = [] \<rparr>"

definition app_idle :: "string \<Rightarrow> app_state" where
  "app_idle u = \<lparr> input_url = u, loading = False, analysis = None, error = [], app_posted = [] \<rparr>"

definition product_page :: page where
  "product_page =
     \<lparr> href = ''https://www.amazon.com/dp/B000000001'',
       pathname = ''/dp/B000000001'',
       productTitle = True,
       analyze_btn = Some createAnalyzeButton,
       results_panel = Some createResultsPanel,
       page_posted = [] \<rparr>"

definition rate_limited :: network where
  "rate_limited u = Resolved \<lparr> status = 500, response_body = Json (ErrorBody (Some ''rate limited'')) \<rparr>"

definition offline :: network where
  "offline u = Rejected ''Failed to fetch''"


definition not_json_error :: network where
  "not_json_error u =
     Resolved \<lparr> status = 502, response_body = Malformed ''<html>Bad Gateway</html>'' ''Unexpected token <'' \<rparr>"


definition overflow_history :: "price_point list" where
  "overflow_history = [\<lparr>date = ''d1'', price = - (2 ^ 1023)\<rparr>, \<lparr>date = ''d2'', price = 2 ^ 1023\<rparr>]"

definition staggered_changes :: "(nat \<times> string \<times> string) list" where
  "staggered_changes =
     [(0, ''https://www.amazon.com/dp/B000000002'', ''/dp/B000000002''),
      (500, ''https://www.amazon.com/dp/B000000003'', ''/dp/B000000003'')]"

definition two_changes :: "(string \<times> string) list" where
  "two_changes =
     [(''https://www.amazon.com/dp/B000000002'', ''/dp/B000000002''),
      (''https://www.amazon.com/dp/B000000003'', ''/dp/B000000003'')]"

definition app_showing :: "analysis_result \<Rightarrow> app_state" where
  "app_showing a =
     \<lparr> input_url = result_url a, loading = False, analysis = Some (Json (ResultBody a)),
       error = [], app_posted = [result_url a] \<rparr>"

section \<open>Facts about the string methods\<close>

lemma js_includes_sublist: "js_includes s d \<longleftrightarrow> sublist d s"
  by (induction s) (simp_all add: sublist_Cons_right)

lemma trim_Nil_iff: "trim s = [] \<longleftrightarrow> (\<forall>c \<in> set s. isWhiteSpace c)"
proof
  assume "trim s = []"
  then have "dropWhile isWhiteSpace (rev (dropWhile isWhiteSpace s)) = []"
    by (simp add: trim_def)
  then have "\<forall>c \<in> set (rev (dropWhile isWhiteSpace s)). isWhiteSpace c"
    by (simp only: dropWhile_eq_Nil_conv)
  then have "\<forall>c \<in> set (dropWhile isWhiteSpace s). isWhiteSpace c"
    by simp
  moreover have "dropWhile isWhiteSpace s \<noteq> [] \<Longrightarrow> \<not> isWhiteSpace (hd (dropWhile isWhiteSpace s))"
    by (rule hd_dropWhile)
  ultimately have "dropWhile isWhiteSpace s = []"
    by (metis list.set_sel(1))
  then show "\<forall>c \<in> set s. isWhiteSpace c"
    by (simp only: dropWhile_eq_Nil_conv)
next
  assume "\<forall>c \<in> set s. isWhiteSpace c"
  then show "trim s = []"
    by (auto simp: trim_def dest: set_dropWhileD)
qed

lemma sublist_set_mono: "sublist d s \<Longrightarrow> set d \<subseteq> set s"
  by (auto simp: sublist_def)

lemma amazon_dot_not_blank:
  assumes "js_includes url ''amazon.''"
  shows "\<not> app_url_blank url"
proof
  assume "app_url_blank url"
  then have ws: "\<forall>c \<in> set url. isWhiteSpace c"
    by (simp add: app_url_blank_def trim_Nil_iff)
  from assms have "set ''amazon.'' \<subseteq> set url"
    by (simp only: js_includes_sublist sublist_set_mono)
  then have "CHR ''a'' \<in> set url"
    by simp
  with ws have "isWhiteSpace CHR ''a''"
    by blast
  then show False
    by (simp add: isWhiteSpace_def)
qed

section \<open>Claims about the domain classifier\<close>

text \<open>
  Claim C3, as the code has it.  \<^verbatim>\<open>isAmazonURL\<close> (badge check in \<^verbatim>\<open>background.js\<close>, page and
  input check in \<^verbatim>\<open>popup.js\<close>) is true exactly for the URLs that contain one of the nine
  allow-listed domain strings as a substring.  The web app does not use the allow-list: it
  accepts exactly the URLs that contain the substring \<^verbatim>\<open>amazon.\<close>.
\<close>

theorem eligibility_by_surface:
  "(isAmazonURL url \<longleftrightarrow> (\<exists>d \<in> set amazonDomains. sublist d url)) \<and>
   (app_url_accepted url \<longleftrightarrow> sublist ''amazon.'' url)"
proof
  show "isAmazonURL url \<longleftrightarrow> (\<exists>d \<in> set amazonDomains. sublist d url)"
    by (simp only: isAmazonURL_def list_ex_iff js_includes_sublist)
next
  show "app_url_accepted url \<longleftrightarrow> sublist ''amazon.'' url"
    using amazon_dot_not_blank [of url]
    by (auto simp: app_url_accepted_def js_includes_sublist)
qed

theorem eligibility_by_surface_witness:
  "isAmazonURL ''https://amzn.to/3xYz'' \<and> \<not> app_url_accepted ''https://amzn.to/3xYz''"
proof -
  have "sublist ''amzn.to'' ''https://amzn.to/3xYz''"
    by (simp only: js_includes_sublist [symmetric]) simp
  moreover have "''amzn.to'' \<in> set amazonDomains"
    by (simp add: amazonDomains_def)
  ultimately have "isAmazonURL ''https://amzn.to/3xYz''"
    using eligibility_by_surface [of "''https://amzn.to/3xYz''"] by blast
  moreover have "\<not> sublist ''amazon.'' ''https://amzn.to/3xYz''"
    by (simp only: js_includes_sublist [symmetric]) simp
  then have "\<not> app_url_accepted ''https://amzn.to/3xYz''"
    using eligibility_by_surface [of "''https://amzn.to/3xYz''"] by blast
  ultimately show ?thesis by blast
qed

text \<open>
  Claim C3 as stated fails on the web app: the short link below contains the allow-listed
  string \<^verbatim>\<open>a.co\<close>, the extension accepts it, the web app's check rejects it.
\<close>

theorem web_app_check_counterexample:
  "js_includes ''https://a.co/d/abc'' ''a.co'' \<and> isAmazonURL ''https://a.co/d/abc'' \<and>
   \<not> app_url_accepted ''https://a.co/d/abc''"
  by (simp add: isAmazonURL_def amazonDomains_def app_url_accepted_def)

section \<open>Claims about the presentation of a result\<close>

text \<open>
  Claim C4, as the code has it.  Every surface lowers the verdict and looks for \<^verbatim>\<open>buy\<close>
  first and for \<^verbatim>\<open>wait\<close> second, so the bucket depends on the verdict only up to case and
  a verdict with \<^verbatim>\<open>buy\<close> and \<^verbatim>\<open>skip\<close> is a Buy.  The web app then looks for \<^verbatim>\<open>skip\<close> and
  falls back to the grey class.  The popup and the content script have three classes only:
  every verdict without \<^verbatim>\<open>buy\<close> and without \<^verbatim>\<open>wait\<close> gets the class \<^verbatim>\<open>skip\<close>.
\<close>

theorem verdict_buckets:
  "getVerdictStyle v =
     (if sublist ''buy'' (toLowerCase v) then ''bg-green-500 text-white''
      else if sublist ''wait'' (toLowerCase v) then ''bg-yellow-500 text-white''
      else if sublist ''skip'' (toLowerCase v) then ''bg-red-500 text-white''
      else ''bg-gray-500 text-white'') \<and>
   verdictClass v =
     (if sublist ''buy'' (toLowerCase v) then ''buy''
      else if sublist ''wait'' (toLowerCase v) then ''wait''
      else ''skip'') \<and>
   card_verdictClass (popup_render data) = verdictClass (verdict data) \<and>
   cc_verdictClass (content_render data) = verdictClass (verdict data) \<and>
   (render_analysis data = Inr view \<longrightarrow> view_verdict_style view = getVerdictStyle (verdict data)) \<and>
   (toLowerCase v = toLowerCase w \<longrightarrow>
      getVerdictStyle v = getVerdictStyle w \<and> verdictClass v = verdictClass w)"
proof -
  have "render_analysis data = Inr view \<Longrightarrow> view_verdict_style view = getVerdictStyle (verdict data)"
    by (auto simp: render_analysis_def split: sum.splits)
  then show ?thesis
    by (simp add: getVerdictStyle_def verdictClass_def js_includes_sublist popup_render_def
        content_render_def)
qed

theorem verdict_buckets_witness:
  "toLowerCase ''BUY it, do not skip'' = toLowerCase ''buy it, do NOT Skip'' \<and>
   getVerdictStyle ''BUY it, do not skip'' = ''bg-green-500 text-white'' \<and>
   getVerdictStyle ''buy it, do NOT Skip'' = ''bg-green-500 text-white'' \<and>
   verdictClass ''BUY it, do not skip'' = ''buy'' \<and>
   verdictClass ''buy it, do NOT Skip'' = ''buy''"
proof -
  have low1: "toLowerCase ''BUY it, do not skip'' = ''buy it, do not skip''"
    by code_simp
  have low2: "toLowerCase ''buy it, do NOT Skip'' = ''buy it, do not skip''"
    by code_simp
  note low = low1 low2
  have sub: "sublist ''buy'' ''buy it, do not skip''"
    by (simp only: js_includes_sublist [symmetric]) simp
  note vb = verdict_buckets [of "''BUY it, do not skip''" sample_result undefined
      "''buy it, do NOT Skip''"]
  have style: "getVerdictStyle ''BUY it, do not skip'' = ''bg-green-500 text-white''"
    and cls: "verdictClass ''BUY it, do not skip'' = ''buy''"
    using vb sub by (simp_all only: low1 if_True)
  have same: "getVerdictStyle ''BUY it, do not skip'' = getVerdictStyle ''buy it, do NOT Skip''"
             "verdictClass ''BUY it, do not skip'' = verdictClass ''buy it, do NOT Skip''"
    using vb low by metis+
  from low style cls same show ?thesis
    by metis
qed

text \<open>
  Claim C4 as stated fails in the popup and in the content script: the verdict below has
  none of the three words, the web app gives it the grey fallback class and the extension
  gives it the class \<^verbatim>\<open>skip\<close>.
\<close>

theorem verdict_fallback_counterexample:
  "\<not> js_includes (toLowerCase ''Think it over'') ''buy'' \<and>
   \<not> js_includes (toLowerCase ''Think it over'') ''wait'' \<and>
   \<not> js_includes (toLowerCase ''Think it over'') ''skip'' \<and>
   getVerdictStyle ''Think it over'' = ''bg-gray-500 text-white'' \<and>
   verdictClass ''Think it over'' = ''skip'' \<and>
   cc_verdictClass (content_render (sample_result\<lparr>verdict := ''Think it over''\<rparr>)) = ''skip'' \<and>
   card_verdictClass (popup_render (sample_result\<lparr>verdict := ''Think it over''\<rparr>)) = ''skip''"
proof -
  have low: "toLowerCase ''Think it over'' = ''think it over''"
    by code_simp
  show ?thesis
    by (simp add: low getVerdictStyle_def verdictClass_def content_render_def popup_render_def)
qed

text \<open>
  Claim C5, as the code has it.  The colour band is one of four colours for every integer
  score.  The width of the score bar is the score itself on all three surfaces, so it is
  within 0 to 100 exactly when the score is.  The width of a factor bar is
  \<open>max 5 (value / 30 * 100)\<close>: never below 5, and at most 100 exactly when the value is
  at most 30.
\<close>

theorem bars_and_bands:
  "getScoreColor s \<in> {''#f44336'', ''#ff9800'', ''#ffc107'', ''#4caf50''} \<and>
   app_getScoreColor s \<in>
     {''text-red-600 bg-red-100'', ''text-orange-600 bg-orange-100'',
      ''text-yellow-600 bg-yellow-100'', ''text-green-600 bg-green-100''} \<and>
   card_score_width (popup_render data) = impulse_score data \<and>
   cc_score_width (content_render data) = impulse_score data \<and>
   (render_analysis data = Inr view \<longrightarrow> view_score_width view = impulse_score data) \<and>
   (0 \<le> impulse_score data \<and> impulse_score data \<le> 100 \<longrightarrow>
      0 \<le> score_fill_width data \<and> score_fill_width data \<le> 100) \<and>
   5 \<le> factor_bar_width m k \<and>
   (factor_bar_width m k \<le> 100 \<longleftrightarrow> factorValue m k \<le> 30)"
proof -
  have a: "getScoreColor s \<in> {''#f44336'', ''#ff9800'', ''#ffc107'', ''#4caf50''}"
    by (simp add: getScoreColor_def)
  have b: "app_getScoreColor s \<in>
     {''text-red-600 bg-red-100'', ''text-orange-600 bg-orange-100'',
      ''text-yellow-600 bg-yellow-100'', ''text-green-600 bg-green-100''}"
    by (simp add: app_getScoreColor_def)
  have c: "card_score_width (popup_render data) = impulse_score data"
          "cc_score_width (content_render data) = impulse_score data"
    by (simp_all add: popup_render_def content_render_def score_fill_width_def)
  have d: "render_analysis data = Inr view \<Longrightarrow> view_score_width view = impulse_score data"
    by (auto simp: render_analysis_def score_fill_width_def split: sum.splits)
  have e: "0 \<le> impulse_score data \<and> impulse_score data \<le> 100 \<Longrightarrow>
      0 \<le> score_fill_width data \<and> score_fill_width data \<le> 100"
    by (simp add: score_fill_width_def)
  have f: "5 \<le> factor_bar_width m k"
    by (simp add: factor_bar_width_def)
  have "percentage (factorValue m k) \<le> 100 \<longleftrightarrow> factorValue m k \<le> 30"
  proof -
    have "percentage (factorValue m k) \<le> 100 \<longleftrightarrow> (of_int (factorValue m k) :: rat) \<le> of_int 30"
      by (simp add: percentage_def maxValue_def)
    then show ?thesis
      by (simp only: of_int_le_iff)
  qed
  then have g: "factor_bar_width m k \<le> 100 \<longleftrightarrow> factorValue m k \<le> 30"
    by (simp add: factor_bar_width_def)
  from a b c d e f g show ?thesis
    by blast
qed

theorem bars_and_bands_witness:
  "0 \<le> impulse_score sample_result \<and> impulse_score sample_result \<le> 100 \<and>
   score_fill_width sample_result \<le> 100 \<and>
   factorValue (impulse_factors sample_result) ''price_manipulation'' \<le> 30 \<and>
   factor_bar_width (impulse_factors sample_result) ''price_manipulation'' \<le> 100 \<and>
   5 \<le> factor_bar_width (impulse_factors sample_result) ''urgency_language''"
proof -
  have "0 \<le> impulse_score sample_result \<and> impulse_score sample_result \<le> 100"
    by (simp add: sample_result_def)
  moreover have "factorValue (impulse_factors sample_result) ''price_manipulation'' \<le> 30"
    by (simp add: sample_result_def factorValue_def)
  ultimately show ?thesis
    using bars_and_bands [of 72 sample_result undefined "impulse_factors sample_result"
        "''price_manipulation''"]
      bars_and_bands [of 72 sample_result undefined "impulse_factors sample_result"
        "''urgency_language''"]
    by blast
qed

text \<open>
  Claim C5 as stated fails: nothing clamps.  A score of 150 gives a bar of 150 percent in the
  popup, a score of -5 a width of -5, and a factor value of 60 a bar of 200 percent.
\<close>

theorem unclamped_bars_counterexample:
  "card_score_width (popup_render (sample_result\<lparr>impulse_score := 150\<rparr>)) = 150 \<and>
   \<not> card_score_width (popup_render (sample_result\<lparr>impulse_score := 150\<rparr>)) \<le> 100 \<and>
   score_fill_width (sample_result\<lparr>impulse_score := - 5\<rparr>) = - 5 \<and>
   \<not> 0 \<le> score_fill_width (sample_result\<lparr>impulse_score := - 5\<rparr>) \<and>
   factor_bar_width [''price_manipulation'' \<mapsto> 60] ''price_manipulation'' = 200 \<and>
   \<not> factor_bar_width [''price_manipulation'' \<mapsto> 60] ''price_manipulation'' \<le> 100"
  by (simp add: popup_render_def score_fill_width_def factor_bar_width_def factorValue_def
      percentage_def maxValue_def)

section \<open>Facts about JavaScript numbers\<close>

lemma qsearch_ge: "k \<le> qsearch n k r"
proof (induction n arbitrary: k)
  case 0
  show ?case by simp
next
  case (Suc n)
  from Suc [of "k + 1"] show ?case by simp
qed

lemma qsearch_le: "qsearch n k r \<le> k + int n"
proof (induction n arbitrary: k)
  case 0
  show ?case by simp
next
  case (Suc n)
  from Suc [of "k + 1"] show ?case by simp
qed

lemma qsearch_upper:
  "\<bar>r\<bar> < 2 powi (k + int n + 53) \<Longrightarrow> \<bar>r\<bar> < 2 powi (qsearch n k r + 53)"
proof (induction n arbitrary: k)
  case 0
  then show ?case by simp
next
  case (Suc n)
  show ?case
  proof (cases "\<bar>r\<bar> < 2 powi (k + 53)")
    case True
    then show ?thesis by simp
  next
    case False
    from Suc.prems have "\<bar>r\<bar> < 2 powi (k + 1 + int n + 53)"
      by (simp add: add.commute add.left_commute)
    from Suc.IH [OF this] False show ?thesis by simp
  qed
qed

lemma qsearch_lower:
  "k < qsearch n k r \<Longrightarrow> 2 powi (qsearch n k r + 52) \<le> \<bar>r\<bar>"
proof (induction n arbitrary: k)
  case 0
  then show ?case by simp
next
  case (Suc n)
  show ?case
  proof (cases "\<bar>r\<bar> < 2 powi (k + 53)")
    case True
    with Suc.prems show ?thesis by simp
  next
    case False
    then have q: "qsearch (Suc n) k r = qsearch n (k + 1) r" by simp
    show ?thesis
    proof (cases "k + 1 < qsearch n (k + 1) r")
      case True
      from Suc.IH [OF this] q show ?thesis by simp
    next
      case False
      with qsearch_ge [of "k + 1" n r] have "qsearch n (k + 1) r = k + 1" by simp
      with q \<open>\<not> \<bar>r\<bar> < 2 powi (k + 53)\<close> show ?thesis
        by (simp add: add.commute)
    qed
  qed
qed

lemma quantum_bounds: "- 1074 \<le> quantum r" "quantum r \<le> 971"
  using qsearch_ge [of "- 1074" 2045 r] qsearch_le [of 2045 "- 1074" r]
  by (simp_all add: quantum_def)

lemma quantum_upper:
  assumes "\<bar>r\<bar> < 2 ^ 1024"
  shows "\<bar>r\<bar> < 2 powi (quantum r + 53)"
proof -
  have "(2::rat) powi (- 1074 + int 2045 + 53) = 2 ^ 1024"
    by (simp add: power_int_def)
  with assms have "\<bar>r\<bar> < 2 powi (- 1074 + int 2045 + 53)" by simp
  then show ?thesis
    unfolding quantum_def by (rule qsearch_upper)
qed

lemma quantum_lower:
  assumes "quantum r \<noteq> - 1074"
  shows "2 powi (quantum r + 52) \<le> \<bar>r\<bar>"
proof -
  from assms quantum_bounds(1) [of r] have "- 1074 < qsearch 2045 (- 1074) r"
    by (simp add: quantum_def)
  then show ?thesis
    unfolding quantum_def by (rule qsearch_lower)
qed

lemma round_half_even_of_int [simp]: "round_half_even (of_int z) = z"
  by (simp add: round_half_even_def)

lemma round_half_even_ge: "\<lfloor>q\<rfloor> \<le> round_half_even q"
  by (simp add: round_half_even_def Let_def)

lemma threshold_less: "(2::rat) ^ 1024 - 2 ^ 970 < 2 ^ 1024"
  by simp

text \<open>A value of the grid is not changed by rounding.\<close>

lemma round_double_representable:
  assumes m: "\<bar>m\<bar> < 2 ^ 53" and e: "- 1074 \<le> e"
    and fin: "\<bar>of_int m * 2 powi e\<bar> < (2::rat) ^ 1024 - 2 ^ 970"
  shows "round_double (of_int m * 2 powi e) = Num (of_int m * 2 powi e)"
proof -
  define r :: rat where "r = of_int m * 2 powi e"
  define k where "k = quantum r"
  have ke: "k \<le> e"
  proof (cases "k = - 1074")
    case True
    with e show ?thesis by simp
  next
    case False
    then have "2 powi (k + 52) \<le> \<bar>r\<bar>"
      unfolding k_def by (rule quantum_lower)
    also have "\<bar>r\<bar> = of_int \<bar>m\<bar> * 2 powi e"
      by (simp add: r_def abs_mult)
    also have "\<dots> < 2 ^ 53 * 2 powi e"
    proof -
      from m have "(of_int \<bar>m\<bar> :: rat) < of_int (2 ^ 53)"
        by (simp only: of_int_less_iff)
      then have "(of_int \<bar>m\<bar> :: rat) < 2 ^ 53" by simp
      then show ?thesis by (simp add: mult_strict_right_mono)
    qed
    also have "\<dots> = 2 powi (e + 53)"
      by (simp add: power_int_add)
    finally have lt: "(2::rat) powi (k + 52) < 2 powi (e + 53)" .
    have "k + 52 < e + 53"
    proof (rule ccontr)
      assume "\<not> k + 52 < e + 53"
      then have "e + 53 \<le> k + 52" by simp
      then have "(2::rat) powi (e + 53) \<le> 2 powi (k + 52)"
        by (rule power_int_increasing) simp
      with lt show False by simp
    qed
    then show ?thesis by simp
  qed
  then obtain d where d: "e = k + int d"
    by (metis zle_iff_zadd)
  have q: "r / 2 powi k = of_int (m * 2 ^ d)"
    by (simp add: r_def d power_int_add)
  have recon: "of_int (round_half_even (r / 2 powi k)) * 2 powi k = r"
    unfolding q round_half_even_of_int by (simp add: r_def d power_int_add)
  from fin have small: "\<not> (2::rat) ^ 1024 - 2 ^ 970 \<le> \<bar>r\<bar>"
    by (simp only: not_le r_def)
  have "round_double r = Num r"
    unfolding round_double_def k_def [symmetric]
    by (simp only: small if_False recon)
  then show ?thesis
    by (simp only: r_def)
qed

lemma round_double_int:
  assumes "\<bar>m\<bar> < 2 ^ 53"
  shows "round_double (of_int m) = Num (of_int m)"
proof -
  have "\<bar>of_int m :: rat\<bar> < of_int (2 ^ 53)"
    using assms by (simp only: of_int_abs [symmetric] of_int_less_iff)
  also have "(of_int (2 ^ 53) :: rat) < 2 ^ 1024 - 2 ^ 970" by simp
  finally have "\<bar>of_int m * 2 powi 0\<bar> < (2::rat) ^ 1024 - 2 ^ 970" by simp
  from round_double_representable [OF assms _ this] show ?thesis by simp
qed

lemma round_double_0 [simp]: "round_double 0 = Num 0"
  using round_double_int [of 0] by simp

lemma round_double_1 [simp]: "round_double 1 = Num 1"
  using round_double_int [of 1] by simp

lemma round_double_100 [simp]: "round_double 100 = Num 100"
  using round_double_int [of 100] by simp

lemma round_double_overflow: "round_double (2 ^ 1024) = PosInf"
  by (simp add: round_double_def)


lemma grid_integer:
  assumes "c \<le> e"
  shows "\<exists>z::int. of_int m * 2 powi e = (of_int z :: rat) * 2 powi c"
proof -
  from assms obtain d where d: "e = c + int d"
    by (metis zle_iff_zadd)
  have "of_int m * 2 powi e = (of_int (m * 2 ^ d) :: rat) * 2 powi c"
    by (simp add: d power_int_add)
  then show ?thesis ..
qed

lemma round_double_nonzero:
  assumes "(2::rat) powi (- 1074) \<le> x"
  shows "round_double x \<noteq> Num 0"
proof (cases "(2::rat) ^ 1024 - 2 ^ 970 \<le> \<bar>x\<bar>")
  case True
  then show ?thesis by (simp only: round_double_def if_True split: if_splits) simp
next
  case False
  define k where "k = quantum x"
  have pos: "(0::rat) < 2 powi k" by simp
  from assms have xpos: "0 < x"
    by (rule less_le_trans [rotated]) simp
  have "2 powi k \<le> x"
  proof (cases "k = - 1074")
    case True
    with assms show ?thesis by simp
  next
    case False
    then have "2 powi (k + 52) \<le> \<bar>x\<bar>"
      unfolding k_def by (rule quantum_lower)
    moreover have "(2::rat) powi k \<le> 2 powi (k + 52)"
      by (rule power_int_increasing) simp_all
    ultimately show ?thesis using xpos by simp
  qed
  then have "1 \<le> x / 2 powi k"
    using pos by (simp add: le_divide_eq)
  then have "1 \<le> \<lfloor>x / 2 powi k\<rfloor>"
    by (simp only: le_floor_iff of_int_1)
  moreover note round_half_even_ge [of "x / 2 powi k"]
  ultimately have "1 \<le> round_half_even (x / 2 powi k)"
    by (rule order_trans)
  then have "(0::rat) < of_int (round_half_even (x / 2 powi k))"
    by simp
  then have "(0::rat) < of_int (round_half_even (x / 2 powi k)) * 2 powi k"
    using pos by (rule mult_pos_pos)
  then have "of_int (round_half_even (x / 2 powi k)) * 2 powi k \<noteq> (0::rat)"
    by (rule less_imp_neq [THEN not_sym])
  then have "Num (of_int (round_half_even (x / 2 powi k)) * 2 powi k) \<noteq> Num 0"
    by (simp only: jsnum.inject not_False_eq_True)
  then show ?thesis
    unfolding round_double_def k_def [symmetric] by (simp only: False if_False simp_thms)
qed

text \<open>Two different values of the grid differ by at least the smallest positive one, so
  their rounded difference is not zero.\<close>

lemma double_difference_nonzero:
  assumes "- 1074 \<le> e1" and "- 1074 \<le> e2"
    and "(of_int m2 :: rat) * 2 powi e2 < of_int m1 * 2 powi e1"
  shows "round_double (of_int m1 * 2 powi e1 - of_int m2 * 2 powi e2) \<noteq> Num 0"
proof -
  from grid_integer [OF assms(1), of m1] obtain z1 where
    z1: "of_int m1 * 2 powi e1 = (of_int z1 :: rat) * 2 powi (- 1074)" ..
  from grid_integer [OF assms(2), of m2] obtain z2 where
    z2: "of_int m2 * 2 powi e2 = (of_int z2 :: rat) * 2 powi (- 1074)" ..
  have pos: "(0::rat) < 2 powi (- 1074)" by simp
  from assms(3) have "(of_int z2 :: rat) * 2 powi (- 1074) < of_int z1 * 2 powi (- 1074)"
    by (simp only: z1 z2)
  with pos have "(of_int z2 :: rat) < of_int z1"
    by (simp only: mult_less_cancel_right_pos)
  then have "z2 < z1" by (simp only: of_int_less_iff)
  then have "1 \<le> z1 - z2" by simp
  then have "(1::rat) \<le> of_int (z1 - z2)"
    by (simp only: of_int_1 [symmetric, where ?'a = rat] of_int_le_iff)
  then have "(1::rat) * 2 powi (- 1074) \<le> of_int (z1 - z2) * 2 powi (- 1074)"
    using pos by (simp only: mult_le_cancel_right_pos)
  then have "(2::rat) powi (- 1074) \<le> of_int m1 * 2 powi e1 - of_int m2 * 2 powi e2"
    by (simp only: z1 z2 of_int_diff left_diff_distrib mult_1)
  then show ?thesis
    by (rule round_double_nonzero)
qed


section \<open>Claims about the price history chart\<close>

lemma fold_max_Max: "fold max xs (x::rat) = Max (set (x # xs))"
  by (simp only: Max.set_eq_fold)

lemma fold_min_Min: "fold min xs (x::rat) = Min (set (x # xs))"
  by (simp only: Min.set_eq_fold)

lemma PriceHistoryChart_nonempty:
  assumes "ps \<noteq> []"
  shows "PriceHistoryChart (Some ps) =
     Some \<lparr> points =
              map (\<lambda>(index, point).
                     (chart_x (length ps) index,
                      chart_y (Min (price ` set ps))
                        (js_sub (Num (Max (price ` set ps))) (Num (Min (price ` set ps))))
                        (price point)))
                  (enumerate 0 ps),
            top_label = Max (price ` set ps),
            bottom_label = Min (price ` set ps),
            first_date = date (hd ps),
            last_date = date (last ps) \<rparr>"
proof -
  from assms obtain p qs where ps: "ps = p # qs"
    by (cases ps) auto
  have mx: "Math_max (map price (p # qs)) = Num (Max (price ` set (p # qs)))"
    by (simp add: fold_max_Max)
  have mn: "Math_min (map price (p # qs)) = Num (Min (price ` set (p # qs)))"
    by (simp add: fold_min_Min)
  show ?thesis
    unfolding ps PriceHistoryChart_def option.case list.case mx mn prod.case jsnum.case Let_def
    by simp
qed

text \<open>On a flat history the divisor \<^verbatim>\<open>priceRange\<close> is zero and so is every dividend:
  every vertical position is \<^verbatim>\<open>0 / 0\<close>, which is \<^verbatim>\<open>NaN\<close>.\<close>

lemma flat_history_NaN:
  assumes "ps \<noteq> []" and "Max (price ` set ps) = Min (price ` set ps)"
  shows "\<exists>c. PriceHistoryChart (Some ps) = Some c \<and> (\<forall>pt \<in> set (points c). snd pt = NaN)"
proof -
  let ?mn = "Min (price ` set ps)"
  let ?range = "js_sub (Num (Max (price ` set ps))) (Num ?mn)"
  have range: "?range = Num 0"
    by (simp add: assms(2))
  have eq: "price q = ?mn" if "q \<in> set ps" for q
  proof -
    from that have "?mn \<le> price q" and "price q \<le> Max (price ` set ps)"
      by simp_all
    with assms(2) show ?thesis by simp
  qed
  have y: "chart_y ?mn ?range (price q) = NaN" if "q \<in> set ps" for q
    unfolding range using eq [OF that] by (simp add: chart_y_def)
  have "snd pt = NaN"
    if "pt \<in> set (map (\<lambda>(index, point).
                     (chart_x (length ps) index, chart_y ?mn ?range (price point)))
                  (enumerate 0 ps))" for pt
  proof -
    from that obtain i q where "(i, q) \<in> set (enumerate 0 ps)" and
      pt: "pt = (chart_x (length ps) i, chart_y ?mn ?range (price q))"
      by auto
    then have "q \<in> set ps"
      by (auto simp: in_set_enumerate_eq)
    with pt y show ?thesis by simp
  qed
  then show ?thesis
    using PriceHistoryChart_nonempty [OF assms(1)] by simp
qed

text \<open>
  Claim C6, evaluated on the code: for the flat history \<open>[(d1, 50), (d2, 50)]\<close> both
  vertical positions are \<^verbatim>\<open>NaN\<close>, the result of \<^verbatim>\<open>0 / 0\<close>, not a midline; for the single
  point \<open>[(d1, 50)]\<close> the horizontal position is \<^verbatim>\<open>0 / 0\<close> as well.
\<close>

theorem flat_history_positions:
  "map_option points (PriceHistoryChart (Some flat_history)) = Some [(Num 0, NaN), (Num 100, NaN)] \<and>
   map_option points (PriceHistoryChart (Some single_point_history)) = Some [(NaN, NaN)]"
  by (simp add: PriceHistoryChart_def flat_history_def single_point_history_def chart_x_def
      chart_y_def)


lemma round_double_half: "round_double (1 / 2) = Num (1 / 2)"
  using round_double_representable [of 1 "- 1"] by simp

lemma round_double_50: "round_double 50 = Num 50"
  using round_double_int [of 50] by simp

text \<open>For prices that are values of the format, a largest price above the smallest and a
  difference below the overflow threshold give a finite price range that is not zero.\<close>

lemma finite_nonzero_range:
  assumes "- 1074 \<le> e1" and "- 1074 \<le> e2"
    and "mx = of_int m1 * 2 powi e1" and "mn = of_int m2 * 2 powi e2"
    and "mn < mx" and "mx - mn < 2 ^ 1024 - 2 ^ 970"
  shows "\<exists>r. js_sub (Num mx) (Num mn) = Num r \<and> r \<noteq> 0"
proof -
  from assms(5) have abs: "\<bar>mx - mn\<bar> = mx - mn"
    by simp
  have small: "\<not> 2 ^ 1024 - 2 ^ 970 \<le> \<bar>mx - mn\<bar>"
    unfolding abs using assms(6) by (simp only: not_le)
  have "round_double (mx - mn) =
      Num (of_int (round_half_even ((mx - mn) / 2 powi quantum (mx - mn))) * 2 powi quantum (mx - mn))"
    unfolding round_double_def by (simp only: small if_False)
  then obtain r where r: "round_double (mx - mn) = Num r" ..
  have "round_double (mx - mn) \<noteq> Num 0"
    using double_difference_nonzero [OF assms(1,2), of m2 m1] assms(3,4,5) by simp
  with r have "r \<noteq> 0" by simp
  with r show ?thesis by simp
qed

text \<open>
  Claim C7, as the code has it.  For a history of at least two points whose computed price
  range \<^verbatim>\<open>maxPrice - minPrice\<close> is a finite number other than zero, the chart exists and
  has one point for each entry; the point with index \<open>i\<close> is at the values that the
  arithmetic of JavaScript numbers gives to \<^verbatim>\<open>(i / (length - 1)) * 100\<close> and to
  \<^verbatim>\<open>100 - ((price - min) / priceRange) * 100\<close>, each operation rounded.  A point with the
  smallest price is at \<open>y = 100\<close> exactly (the baseline), one with the largest price at
  \<open>y = 0\<close> exactly (the top); the first point is at \<open>x = 0\<close> and the last at
  \<open>x = 100\<close>.  By \<open>finite_nonzero_range\<close> the range is finite and not zero whenever the
  largest price is above the smallest and their difference is below the overflow threshold.
\<close>

theorem chart_scaling:
  assumes "2 \<le> length ps"
    and "js_sub (Num (Max (price ` set ps))) (Num (Min (price ` set ps))) = Num r"
    and "r \<noteq> 0"
  shows "\<exists>c. PriceHistoryChart (Some ps) = Some c \<and> length (points c) = length ps \<and>
           (\<forall>i < length ps.
              points c ! i =
                (js_mul (js_div (Num (of_nat i)) (Num (of_nat (length ps) - 1))) (Num 100),
                 js_sub (Num 100)
                   (js_mul (js_div (js_sub (Num (price (ps ! i))) (Num (Min (price ` set ps))))
                              (Num r))
                      (Num 100))) \<and>
              (price (ps ! i) = Min (price ` set ps) \<longrightarrow> snd (points c ! i) = Num 100) \<and>
              (price (ps ! i) = Max (price ` set ps) \<longrightarrow> snd (points c ! i) = Num 0)) \<and>
           fst (points c ! 0) = Num 0 \<and>
           fst (points c ! (length ps - 1)) = Num 100"
proof -
  let ?mn = "Min (price ` set ps)" and ?mx = "Max (price ` set ps)"
  let ?c = "\<lparr> points =
              map (\<lambda>(index, point).
                     (chart_x (length ps) index,
                      chart_y ?mn (js_sub (Num ?mx) (Num ?mn)) (price point)))
                  (enumerate 0 ps),
            top_label = ?mx, bottom_label = ?mn,
            first_date = date (hd ps), last_date = date (last ps) \<rparr>"
  from assms(1) have ne: "ps \<noteq> []" by auto
  from assms(2) have rng: "round_double (?mx - ?mn) = Num r" by simp
  have c: "PriceHistoryChart (Some ps) = Some ?c"
    using ne by (rule PriceHistoryChart_nonempty)
  have len: "length (points ?c) = length ps" by simp
  have pt: "points ?c ! i =
      (js_mul (js_div (Num (of_nat i)) (Num (of_nat (length ps) - 1))) (Num 100),
       js_sub (Num 100)
         (js_mul (js_div (js_sub (Num (price (ps ! i))) (Num ?mn)) (Num r)) (Num 100)))"
    if "i < length ps" for i
    using that by (simp add: nth_enumerate_eq chart_x_def chart_y_def rng)
  have lo: "snd (points ?c ! i) = Num 100" if "i < length ps" "price (ps ! i) = ?mn" for i
    unfolding pt [OF that(1)] that(2) using assms(3) by simp
  have hi: "snd (points ?c ! i) = Num 0" if "i < length ps" "price (ps ! i) = ?mx" for i
    unfolding pt [OF that(1)] that(2) using assms(3) by (simp add: rng)
  have nz: "(of_nat (length ps) :: rat) - 1 \<noteq> 0"
    using assms(1) by simp
  have first: "fst (points ?c ! 0) = Num 0"
  proof -
    from ne have "0 < length ps" by simp
    from pt [OF this] show ?thesis
      using nz by (simp only: fst_conv of_nat_0 js_div.simps if_False) simp
  qed
  have final: "fst (points ?c ! (length ps - 1)) = Num 100"
  proof -
    from assms(1) have "length ps - 1 < length ps" by simp
    moreover have "(of_nat (length ps - 1) :: rat) = of_nat (length ps) - 1"
      using assms(1) by (simp add: of_nat_diff)
    ultimately show ?thesis
      using pt [of "length ps - 1"] nz ne by (simp only: fst_conv js_div.simps if_False) simp
  qed
  from c len pt lo hi first final show ?thesis by blast
qed

theorem chart_scaling_witness:
  "2 \<le> length sample_history \<and>
   js_sub (Num (Max (price ` set sample_history))) (Num (Min (price ` set sample_history))) = Num 50 \<and>
   (50::rat) \<noteq> 0 \<and>
   (\<exists>c. PriceHistoryChart (Some sample_history) = Some c \<and>
        points c ! 0 = (Num 0, Num 100) \<and> points c ! 1 = (Num 50, Num 0) \<and>
        points c ! 2 = (Num 100, Num 100))"
proof -
  have h1: "2 \<le> length sample_history" by (simp add: sample_history_def)
  have mn: "Min (price ` set sample_history) = 100" and mx: "Max (price ` set sample_history) = 150"
    by (simp_all add: sample_history_def)
  have h2: "js_sub (Num (Max (price ` set sample_history))) (Num (Min (price ` set sample_history))) = Num 50"
    by (simp add: mn mx round_double_50)
  have h3: "(50::rat) \<noteq> 0" by simp
  from chart_scaling [OF h1 h2 h3] obtain c where
    c: "PriceHistoryChart (Some sample_history) = Some c" and
    pt: "\<And>i. i < length sample_history \<Longrightarrow>
            points c ! i =
              (js_mul (js_div (Num (of_nat i)) (Num (of_nat (length sample_history) - 1))) (Num 100),
               js_sub (Num 100)
                 (js_mul (js_div (js_sub (Num (price (sample_history ! i)))
                                    (Num (Min (price ` set sample_history))))
                            (Num 50))
                    (Num 100)))"
    by blast
  have p0: "points c ! 0 = (Num 0, Num 100)"
    using pt [of 0] unfolding mn by (simp add: sample_history_def)
  have p1: "points c ! 1 = (Num 50, Num 0)"
    using pt [of 1] unfolding mn
    by (simp add: sample_history_def round_double_half round_double_50)
  have p2: "points c ! 2 = (Num 100, Num 100)"
    using pt [of 2] unfolding mn by (simp add: sample_history_def)
  from h1 h2 h3 c p0 p1 p2 show ?thesis by blast
qed

text \<open>
  Claim C7 as stated fails where the price range overflows: for the two prices
  \<open>- 2 ^ 1023\<close> and \<open>2 ^ 1023\<close> the largest is above the smallest, the range
  \<open>2 ^ 1024\<close> is \<^verbatim>\<open>Infinity\<close>, and the point with the largest price is at
  \<^verbatim>\<open>Infinity / Infinity\<close>, which is \<^verbatim>\<open>NaN\<close>, not at the top.
\<close>

theorem chart_overflow_counterexample:
  "2 \<le> length overflow_history \<and>
   Min (price ` set overflow_history) < Max (price ` set overflow_history) \<and>
   map_option points (PriceHistoryChart (Some overflow_history)) =
     Some [(Num 0, Num 100), (Num 100, NaN)]"
proof -
  have r: "round_double (2 ^ 1023 + 2 ^ 1023) = PosInf"
    by (simp add: round_double_def)
  note r' = r [simplified]
  show ?thesis
    by (simp add: overflow_history_def PriceHistoryChart_def chart_x_def chart_y_def r' Let_def)
qed

section \<open>Claims about the analysis request\<close>


lemma try_catch_finally_preserves:
  assumes "\<And>s. f (snd (block s)) = f s" and "\<And>e s. f (handler e s) = f s"
    and "\<And>s. f (final s) = f s"
  shows "f (try_catch_finally block handler final s) = f s"
proof -
  obtain e s1 where r: "block s = (e, s1)"
    by (cases "block s") auto
  with assms(1) [of s] have "f s1 = f s" by simp
  with r assms(2,3) show ?thesis
    by (cases e) (simp_all add: try_catch_finally_def)
qed

lemma showResults_posted: "posted (snd (showResults d st)) = posted st"
  by (cases d) (simp_all add: hideError_def hideLoading_def)

lemma popup_response_posted: "posted (snd (popup_response answer st)) = posted st"
  by (cases answer) (auto simp: popup_response_def showResults_posted split: sum.splits)

lemma posted_showError [simp]: "posted (showError m st) = posted st"
  by (simp add: showError_def hideResults_def hideLoading_def)

lemma posted_hideLoading [simp]: "posted (hideLoading st) = posted st"
  by (simp add: hideLoading_def)

lemma posted_popup_begin [simp]: "posted (popup_begin url st) = posted st @ [url]"
  by (simp add: popup_begin_def)

lemma popup_resume_posted: "posted (popup_resume answer st) = posted st"
  unfolding popup_resume_def
  by (rule try_catch_finally_preserves) (simp_all add: popup_response_posted)

lemma analyzeProduct_posted:
  "posted (analyzeProduct net url st) = (if isAmazonURL url then posted st @ [url] else posted st)"
  by (simp add: analyzeProduct_def popup_resume_posted)

lemma showError_fields:
  "errorText (showError m st) = m" "errorSection (showError m st) = Block"
  "loadingSection (showError m st) = NoDisplay" "resultsSection (showError m st) = NoDisplay"
  by (simp_all add: showError_def hideResults_def hideLoading_def)

lemma app_response_posted: "app_posted (snd (app_response answer st)) = app_posted st"
  by (cases answer) (auto simp: app_response_def)

lemma app_resume_posted: "app_posted (app_resume answer st) = app_posted st"
  unfolding app_resume_def
  by (rule try_catch_finally_preserves) (simp_all add: app_response_posted)

lemma app_analyzeProduct_posted:
  "app_posted (app_analyzeProduct net st) =
     (if app_url_accepted (input_url st) then app_posted st @ [input_url st] else app_posted st)"
  by (auto simp: app_analyzeProduct_def app_url_accepted_def app_resume_posted app_begin_def)

text \<open>
  Claim C1, as the code has it.  In the popup a URL that \<^verbatim>\<open>isAmazonURL\<close> rejects (the empty
  URL is one) ends in the error section with the validation message and no request is
  sent; an accepted URL sends exactly one.  In the web app the gate is its own check: a
  URL that is blank or lacks the substring \<^verbatim>\<open>amazon.\<close> gets a validation message, the other
  state variables stay and no request is sent; a URL that passes sends exactly one.
\<close>

theorem validation_before_request:
  "(\<not> isAmazonURL url \<longrightarrow>
      posted (analyzeProduct net url st) = posted st \<and>
      errorText (analyzeProduct net url st) = ''Please provide a valid Amazon URL'' \<and>
      errorSection (analyzeProduct net url st) = Block \<and>
      loadingSection (analyzeProduct net url st) = NoDisplay \<and>
      resultsSection (analyzeProduct net url st) = NoDisplay) \<and>
   (isAmazonURL url \<longrightarrow> posted (analyzeProduct net url st) = posted st @ [url]) \<and>
   (\<not> app_url_accepted (input_url ast) \<longrightarrow>
      app_posted (app_analyzeProduct net ast) = app_posted ast \<and>
      error (app_analyzeProduct net ast) =
        (if app_url_blank (input_url ast) then ''Please enter an Amazon URL''
         else ''Please enter a valid Amazon URL'') \<and>
      loading (app_analyzeProduct net ast) = loading ast \<and>
      analysis (app_analyzeProduct net ast) = analysis ast) \<and>
   (app_url_accepted (input_url ast) \<longrightarrow>
      app_posted (app_analyzeProduct net ast) = app_posted ast @ [input_url ast])"
proof -
  have a: "\<not> isAmazonURL url \<Longrightarrow> analyzeProduct net url st = showError ''Please provide a valid Amazon URL'' st"
    by (simp add: analyzeProduct_def)
  have b: "\<not> app_url_accepted (input_url ast) \<Longrightarrow>
      error (app_analyzeProduct net ast) =
        (if app_url_blank (input_url ast) then ''Please enter an Amazon URL''
         else ''Please enter a valid Amazon URL'') \<and>
      loading (app_analyzeProduct net ast) = loading ast \<and>
      analysis (app_analyzeProduct net ast) = analysis ast"
    by (auto simp: app_analyzeProduct_def app_url_accepted_def)
  show ?thesis
    using a b by (simp add: analyzeProduct_posted app_analyzeProduct_posted showError_fields)
qed

theorem validation_before_request_witness:
  "\<not> isAmazonURL ''https://www.example.com/item/1'' \<and>
   posted (analyzeProduct offline ''https://www.example.com/item/1'' popup_idle) = [] \<and>
   errorSection (analyzeProduct offline ''https://www.example.com/item/1'' popup_idle) = Block \<and>
   \<not> app_url_accepted (input_url (app_idle ''https://www.example.com/item/1'')) \<and>
   app_posted (app_analyzeProduct offline (app_idle ''https://www.example.com/item/1'')) = [] \<and>
   isAmazonURL ''https://www.amazon.de/dp/B000000002'' \<and>
   posted (analyzeProduct offline ''https://www.amazon.de/dp/B000000002'' popup_idle) =
     [''https://www.amazon.de/dp/B000000002'']"
proof -
  have n1: "\<not> isAmazonURL ''https://www.example.com/item/1''"
    by (simp add: isAmazonURL_def amazonDomains_def)
  have n2: "\<not> app_url_accepted (input_url (app_idle ''https://www.example.com/item/1''))"
    by (simp add: app_url_accepted_def app_idle_def)
  have y: "isAmazonURL ''https://www.amazon.de/dp/B000000002''"
    by (simp add: isAmazonURL_def amazonDomains_def)
  have p: "posted popup_idle = []" "app_posted (app_idle ''https://www.example.com/item/1'') = []"
    by (simp_all add: popup_idle_def app_idle_def)
  show ?thesis
    using n1 n2 y p
      validation_before_request [of "''https://www.example.com/item/1''" offline popup_idle
        "app_idle ''https://www.example.com/item/1''"]
      validation_before_request [of "''https://www.amazon.de/dp/B000000002''" offline popup_idle
        "app_idle ''https://www.example.com/item/1''"]
    by simp
qed

text \<open>
  Claim C1 as stated fails in the web app: the URL below contains none of the allow-listed
  domain strings, and the web app sends the request for it.
\<close>

theorem web_app_posts_counterexample:
  "\<not> isAmazonURL ''https://www.amazon.in/dp/B000000003'' \<and>
   app_posted (app_analyzeProduct offline (app_idle ''https://www.amazon.in/dp/B000000003'')) =
     [''https://www.amazon.in/dp/B000000003'']"
  by (simp add: isAmazonURL_def amazonDomains_def app_analyzeProduct_def app_url_blank_def
      trim_def isWhiteSpace_def app_idle_def try_catch_finally_def app_resume_def app_begin_def
      app_response_def offline_def)


lemma hideLoading_fields:
  "errorText (hideLoading st) = errorText st" "errorSection (hideLoading st) = errorSection st"
  "loadingSection (hideLoading st) = NoDisplay"
  by (simp_all add: hideLoading_def)

lemma popup_failed_response:
  assumes "isAmazonURL url" and "net url = Resolved response" and "\<not> ok response"
  shows "analyzeProduct net url st =
     hideLoading (showError
       (''Analysis failed: '' @
          (case response_body response of
             Malformed raw msg \<Rightarrow> msg
           | Json j \<Rightarrow> or_else (detail j) ''Analysis failed''))
       (popup_begin url st))"
  using assms
  by (cases "response_body response")
    (simp_all add: analyzeProduct_def popup_resume_def try_catch_finally_def popup_response_def
      response_json_def)

lemma content_begin_Some:
  assumes "analyze_btn pg = Some b" and "results_panel pg = Some p"
  shows "content_begin pg =
     Some ((set_button AnalyzingLabel PointerNone pg)\<lparr>page_posted := page_posted pg @ [href pg]\<rparr>)"
  using assms by (simp add: content_begin_def getCurrentProductURL_def)

lemma content_failed_response:
  assumes "analyze_btn pg \<noteq> None" and "results_panel pg = Some p"
    and "net (href pg) = Resolved response" and "\<not> ok response"
  shows "results_panel (analyzeCurrentProduct net pg) =
     Some (p\<lparr>panel_html := ErrorPanel ''Analysis failed. Please try again.'', panel_display := Block\<rparr>)"
proof -
  from assms(1) obtain b where b: "analyze_btn pg = Some b"
    by auto
  show ?thesis
    using assms(2-4)
    by (simp add: analyzeCurrentProduct_def content_begin_Some [OF b assms(2)] content_resume_def
        try_catch_finally_def content_response_def getCurrentProductURL_def set_button_def
        content_showError_def)
qed

lemma relay_failed_response:
  assumes "net url = Resolved response" and "\<not> ok response"
  shows "handleProductAnalysis net url = Failure ''Analysis failed''"
  using assms by (simp add: handleProductAnalysis_def)

lemma app_failed_response:
  assumes "app_url_accepted (input_url ast)" and "net (input_url ast) = Resolved response"
    and "\<not> ok response"
  shows "error (app_analyzeProduct net ast) =
     or_else (error_detail (AxiosError (Some response))) ''Failed to analyze product. Please try again.''"
  using assms
  by (simp add: app_analyzeProduct_def app_url_accepted_def app_resume_def try_catch_finally_def
      app_response_def)

text \<open>
  Claim C2, as the code has it, for a response with a status outside 200 to 299.  The popup
  parses the body.  When the body is JSON with a non-empty \<^verbatim>\<open>detail\<close> it shows
  \<^verbatim>\<open>Analysis failed: \<close> followed by the detail; when the body is JSON without a detail
  (or with an empty one) it shows the generic \<^verbatim>\<open>Analysis failed: Analysis failed\<close>; when
  the body is no JSON, parsing throws and it shows \<^verbatim>\<open>Analysis failed: \<close> followed by the
  message of the parser.  The web app shows the detail itself when the body is JSON with
  a non-empty detail, and its generic message in every other case.  The content script
  and the background relay never read the body: the panel shows
  \<^verbatim>\<open>Analysis failed. Please try again.\<close> and the relay answers with the error
  \<^verbatim>\<open>Analysis failed\<close>, whatever the server sent.
\<close>

theorem failed_response_messages:
  assumes "net url = Resolved response" and "\<not> ok response"
  shows
   "(isAmazonURL url \<longrightarrow>
       errorText (analyzeProduct net url st) =
         ''Analysis failed: '' @
           (case response_body response of
              Malformed raw msg \<Rightarrow> msg
            | Json j \<Rightarrow> or_else (detail j) ''Analysis failed'') \<and>
       errorSection (analyzeProduct net url st) = Block \<and>
       loadingSection (analyzeProduct net url st) = NoDisplay) \<and>
    (isAmazonURL url \<and> response_body response = Json (ErrorBody (Some d)) \<and> d \<noteq> [] \<longrightarrow>
       errorText (analyzeProduct net url st) = ''Analysis failed: '' @ d) \<and>
    (isAmazonURL url \<and> response_body response = Json j \<and> detail j \<in> {None, Some []} \<longrightarrow>
       errorText (analyzeProduct net url st) = ''Analysis failed: Analysis failed'') \<and>
    (isAmazonURL url \<and> response_body response = Malformed raw msg \<longrightarrow>
       errorText (analyzeProduct net url st) = ''Analysis failed: '' @ msg) \<and>
    (app_url_accepted url \<and> input_url ast = url \<longrightarrow>
       error (app_analyzeProduct net ast) =
         or_else (case response_body response of Malformed raw msg \<Rightarrow> None | Json j \<Rightarrow> detail j)
           ''Failed to analyze product. Please try again.'') \<and>
    (app_url_accepted url \<and> input_url ast = url \<and>
       response_body response = Json (ErrorBody (Some d)) \<and> d \<noteq> [] \<longrightarrow>
       error (app_analyzeProduct net ast) = d) \<and>
    (href pg = url \<and> analyze_btn pg \<noteq> None \<and> results_panel pg = Some p \<longrightarrow>
       results_panel (analyzeCurrentProduct net pg) =
         Some (p\<lparr>panel_html := ErrorPanel ''Analysis failed. Please try again.'',
                 panel_display := Block\<rparr>)) \<and>
    handleProductAnalysis net url = Failure ''Analysis failed''"
proof -
  have a: "errorText (analyzeProduct net url st) =
         ''Analysis failed: '' @
           (case response_body response of
              Malformed raw msg \<Rightarrow> msg
            | Json j \<Rightarrow> or_else (detail j) ''Analysis failed'') \<and>
       errorSection (analyzeProduct net url st) = Block \<and>
       loadingSection (analyzeProduct net url st) = NoDisplay"
    if "isAmazonURL url"
    using popup_failed_response [of url net response st] that assms
    by (simp add: hideLoading_fields showError_fields)
  have a1: "errorText (analyzeProduct net url st) = ''Analysis failed: '' @ d"
    if "isAmazonURL url" "response_body response = Json (ErrorBody (Some d))" "d \<noteq> []"
    using a [OF that(1)] that(2,3) by simp
  have a2: "errorText (analyzeProduct net url st) = ''Analysis failed: Analysis failed''"
    if "isAmazonURL url" "response_body response = Json j" "detail j \<in> {None, Some []}"
    using a [OF that(1)] that(2,3) by auto
  have a3: "errorText (analyzeProduct net url st) = ''Analysis failed: '' @ msg"
    if "isAmazonURL url" "response_body response = Malformed raw msg"
    using a [OF that(1)] that(2) by simp
  have b: "error (app_analyzeProduct net ast) =
         or_else (case response_body response of Malformed raw msg \<Rightarrow> None | Json j \<Rightarrow> detail j)
           ''Failed to analyze product. Please try again.''"
    if "app_url_accepted url" "input_url ast = url"
    using app_failed_response [of ast net response] that assms
    by (cases "response_body response") simp_all
  have b1: "error (app_analyzeProduct net ast) = d"
    if "app_url_accepted url" "input_url ast = url"
      "response_body response = Json (ErrorBody (Some d))" "d \<noteq> []"
    using b [OF that(1,2)] that(3,4) by simp
  have c: "results_panel (analyzeCurrentProduct net pg) =
         Some (p\<lparr>panel_html := ErrorPanel ''Analysis failed. Please try again.'',
                 panel_display := Block\<rparr>)"
    if "href pg = url" "analyze_btn pg \<noteq> None" "results_panel pg = Some p"
    using content_failed_response [of pg p net response] that assms by simp
  have e: "handleProductAnalysis net url = Failure ''Analysis failed''"
    using assms by (rule relay_failed_response)
  show ?thesis
    by (intro conjI impI) (use a a1 a2 a3 b b1 c e in \<open>simp_all\<close>)
qed

theorem failed_response_messages_witness:
  "rate_limited ''https://www.amazon.com/dp/B000000001'' =
     Resolved \<lparr> status = 500, response_body = Json (ErrorBody (Some ''rate limited'')) \<rparr> \<and>
   \<not> ok \<lparr> status = 500, response_body = Json (ErrorBody (Some ''rate limited'')) \<rparr> \<and>
   errorText (analyzeProduct rate_limited ''https://www.amazon.com/dp/B000000001'' popup_idle) =
     ''Analysis failed: rate limited'' \<and>
   error (app_analyzeProduct rate_limited (app_idle ''https://www.amazon.com/dp/B000000001'')) =
     ''rate limited'' \<and>
   handleProductAnalysis rate_limited ''https://www.amazon.com/dp/B000000001'' =
     Failure ''Analysis failed'' \<and>
   errorText (analyzeProduct not_json_error ''https://www.amazon.com/dp/B000000001'' popup_idle) =
     ''Analysis failed: Unexpected token <'' \<and>
   error (app_analyzeProduct not_json_error (app_idle ''https://www.amazon.com/dp/B000000001'')) =
     ''Failed to analyze product. Please try again.''"
proof -
  let ?u = "''https://www.amazon.com/dp/B000000001''"
  let ?r = "\<lparr> status = 500, response_body = Json (ErrorBody (Some ''rate limited'')) \<rparr>"
  let ?n = "\<lparr> status = 502, response_body = Malformed ''<html>Bad Gateway</html>'' ''Unexpected token <'' \<rparr>"
  have h1: "rate_limited ?u = Resolved ?r"
    by (simp add: rate_limited_def)
  have h2: "\<not> ok ?r"
    by (simp add: ok_def)
  have g1: "not_json_error ?u = Resolved ?n"
    by (simp add: not_json_error_def)
  have g2: "\<not> ok ?n"
    by (simp add: ok_def)
  have h3: "isAmazonURL ?u"
    by (simp add: isAmazonURL_def amazonDomains_def)
  have h4: "app_url_accepted ?u"
    by (simp add: app_url_accepted_def app_url_blank_def trim_def isWhiteSpace_def)
  have h5: "input_url (app_idle ?u) = ?u"
    by (simp add: app_idle_def)
  note w1 = failed_response_messages [where net = rate_limited and url = ?u and response = ?r
        and d = "''rate limited''" and st = popup_idle and ast = "app_idle ?u"
        and pg = product_page and p = createResultsPanel, OF h1 h2]
  note w2 = failed_response_messages [where net = not_json_error and url = ?u and response = ?n
        and raw = "''<html>Bad Gateway</html>''" and msg = "''Unexpected token <''"
        and st = popup_idle and ast = "app_idle ?u" and pg = product_page
        and p = createResultsPanel, OF g1 g2]
  have p1: "errorText (analyzeProduct rate_limited ?u popup_idle) = ''Analysis failed: rate limited''"
    using w1 h3 by simp
  have p2: "error (app_analyzeProduct rate_limited (app_idle ?u)) = ''rate limited''"
    using w1 h4 h5 by simp
  have p3: "handleProductAnalysis rate_limited ?u = Failure ''Analysis failed''"
    using w1 by simp
  have p4: "errorText (analyzeProduct not_json_error ?u popup_idle) = ''Analysis failed: Unexpected token <''"
    using w2 h3 by simp
  have p5: "error (app_analyzeProduct not_json_error (app_idle ?u)) =
      ''Failed to analyze product. Please try again.''"
    using w2 h4 h5 by simp
  from h1 h2 p1 p2 p3 p4 p5 show ?thesis
    by (intro conjI)
qed

text \<open>
  Claim C2 as stated fails in the content script and in the background relay: for HTTP 500
  with \<^verbatim>\<open>{"detail":"rate limited"}\<close> both give their generic message, which does not
  contain the detail.
\<close>

theorem generic_message_counterexample:
  "rate_limited (href product_page) =
     Resolved \<lparr> status = 500, response_body = Json (ErrorBody (Some ''rate limited'')) \<rparr> \<and>
   results_panel (analyzeCurrentProduct rate_limited product_page) =
     Some \<lparr> panel_html = ErrorPanel ''Analysis failed. Please try again.'', panel_display = Block \<rparr> \<and>
   \<not> js_includes ''Analysis failed. Please try again.'' ''rate limited'' \<and>
   handleProductAnalysis rate_limited (href product_page) = Failure ''Analysis failed'' \<and>
   \<not> js_includes ''Analysis failed'' ''rate limited''"
  by (simp add: rate_limited_def product_page_def analyzeCurrentProduct_def createAnalyzeButton_def
      createResultsPanel_def try_catch_finally_def content_begin_def content_resume_def
      content_response_def getCurrentProductURL_def ok_def set_button_def content_showError_def
      handleProductAnalysis_def)

section \<open>Claims about the navigation watcher\<close>

lemma run_Nil [simp]: "run [] w = w"
  by (simp add: run_def)

lemma run_append [simp]: "run (xs @ ys) w = run ys (run xs w)"
  by (simp add: run_def)

lemma staggered_Cons:
  "staggered ((g, h, p) # cs) = [Advance g, Navigate h p, Mutation] @ staggered cs"
  by (simp add: staggered_def)

lemma showAnalyzeButton_keeps [simp]:
  "href (showAnalyzeButton pg) = href pg"
  "isProductPage (showAnalyzeButton pg) = isProductPage pg"
  by (simp_all add: showAnalyzeButton_def isProductPage_def)

lemma fold_showAnalyzeButton_keeps [simp]:
  "href (fold (\<lambda>due. showAnalyzeButton) xs pg) = href pg"
  "isProductPage (fold (\<lambda>due. showAnalyzeButton) xs pg) = isProductPage pg"
  by (induction xs arbitrary: pg) simp_all

lemma showAnalyzeButton_product_page:
  assumes "isProductPage pg"
  shows "analyze_btn (showAnalyzeButton pg) = Some createAnalyzeButton"
    and "results_panel (showAnalyzeButton pg) \<noteq> None"
  using assms by (simp_all add: showAnalyzeButton_def split: option.splits)

lemma fold_showAnalyzeButton_product_page:
  assumes "xs \<noteq> []" and "isProductPage pg"
  shows "analyze_btn (fold (\<lambda>due. showAnalyzeButton) xs pg) = Some createAnalyzeButton \<and>
         results_panel (fold (\<lambda>due. showAnalyzeButton) xs pg) \<noteq> None"
  using assms
proof (induction xs arbitrary: pg rule: rev_induct)
  case Nil
  then show ?case by simp
next
  case (snoc x xs)
  have "isProductPage (fold (\<lambda>due. showAnalyzeButton) xs pg)"
    using snoc.prems(2) by simp
  then show ?case
    by (simp add: showAnalyzeButton_product_page)
qed

lemma fold_showAnalyzeButton_Nil_or_other:
  assumes "\<not> isProductPage pg"
  shows "fold (\<lambda>due. showAnalyzeButton) xs pg = pg"
  using assms by (induction xs) (simp_all add: showAnalyzeButton_def)

lemma advance_fields:
  "clock (advance d w) = clock w + d"
  "lastUrl (advance d w) = lastUrl w"
  "timers (advance d w) = filter (\<lambda>due. clock w + d < due) (timers w)"
  "href (doc (advance d w)) = href (doc w)"
  "doc (advance d w) =
     fold (\<lambda>due. showAnalyzeButton) (filter (\<lambda>due. due \<le> clock w + d) (timers w)) (doc w)"
  by (simp_all add: advance_def Let_def not_le)

lemma one_staggered:
  assumes "lastUrl w = href (doc w)" and "h \<noteq> href (doc w)"
  shows "clock (run [Advance g, Navigate h p, Mutation] w) = clock w + g"
    and "lastUrl (run [Advance g, Navigate h p, Mutation] w) = h"
    and "href (doc (run [Advance g, Navigate h p, Mutation] w)) = h"
    and "timers (run [Advance g, Navigate h p, Mutation] w) =
           filter (\<lambda>due. clock w + g < due) (timers w) @ [clock w + g + 1000]"
  using assms
  by (simp_all add: run_def observer_callback_def setTimeout_def Let_def advance_fields)

lemma filter_filter_weaker:
  assumes "\<And>x. P x \<Longrightarrow> Q x"
  shows "filter P (filter Q xs) = filter P xs"
  using assms by (induction xs) auto

lemma staggered_run:
  assumes "lastUrl w = href (doc w)" and "distinct_adj (href (doc w) # map (\<lambda>ch. fst (snd ch)) cs)"
    and "\<forall>due \<in> set (timers w). clock w < due"
  shows "timers (run (staggered cs) w) =
           filter (\<lambda>due. clock w + sum_list (map fst cs) < due) (timers w @ dues (clock w) cs) \<and>
         clock (run (staggered cs) w) = clock w + sum_list (map fst cs) \<and>
         lastUrl (run (staggered cs) w) = href (doc (run (staggered cs) w))"
  using assms
proof (induction cs arbitrary: w)
  case Nil
  then have "filter (\<lambda>due. clock w < due) (timers w) = timers w"
    by (simp only: filter_id_conv)
  with Nil.prems(1) show ?case by (simp add: staggered_def)
next
  case (Cons c cs)
  obtain g h p where c: "c = (g, h, p)" by (cases c)
  from Cons.prems(2) have ne: "h \<noteq> href (doc w)"
    and rest: "distinct_adj (h # map (\<lambda>ch. fst (snd ch)) cs)"
    by (auto simp: c)
  define w1 where "w1 = run [Advance g, Navigate h p, Mutation] w"
  note one = one_staggered [OF Cons.prems(1) ne, of g p, folded w1_def]
  have "lastUrl w1 = href (doc w1)" and "distinct_adj (href (doc w1) # map (\<lambda>ch. fst (snd ch)) cs)"
    and "\<forall>due \<in> set (timers w1). clock w1 < due"
    using rest by (simp_all add: one)
  from Cons.IH [OF this]
  have ih: "timers (run (staggered cs) w1) =
           filter (\<lambda>due. clock w1 + sum_list (map fst cs) < due) (timers w1 @ dues (clock w1) cs)"
    and ihc: "clock (run (staggered cs) w1) = clock w1 + sum_list (map fst cs)"
    and ihl: "lastUrl (run (staggered cs) w1) = href (doc (run (staggered cs) w1))"
    by simp_all
  have r: "run (staggered (c # cs)) w = run (staggered cs) w1"
    unfolding c staggered_Cons w1_def by (rule run_append)
  have "filter (\<lambda>due. clock w + g + sum_list (map fst cs) < due)
          (filter (\<lambda>due. clock w + g < due) (timers w)) =
        filter (\<lambda>due. clock w + g + sum_list (map fst cs) < due) (timers w)"
    by (rule filter_filter_weaker) simp
  then have "timers (run (staggered cs) w1) =
      filter (\<lambda>due. clock w + (g + sum_list (map fst cs)) < due)
        (timers w @ (clock w + g + 1000) # dues (clock w + g) cs)"
    by (simp add: ih one add.assoc)
  with ihc ihl show ?case
    unfolding r by (simp add: c one add.assoc)
qed

lemma dues_le: "\<forall>due \<in> set (dues c cs). due \<le> c + sum_list (map fst cs) + 1000"
proof (induction cs arbitrary: c)
  case Nil
  show ?case by simp
next
  case (Cons x cs)
  obtain g h p where x: "x = (g, h, p)" by (cases x)
  from Cons [of "c + g"] show ?case
    by (auto simp: x)
qed

lemma dues_pending:
  assumes "sum_list (map fst (tl cs)) < 1000"
  shows "\<forall>due \<in> set (dues c cs). c + sum_list (map fst cs) < due"
  using assms
proof (induction cs arbitrary: c)
  case Nil
  show ?case by simp
next
  case (Cons x cs)
  obtain g h p where x: "x = (g, h, p)" by (cases x)
  have "sum_list (map fst (tl cs)) \<le> sum_list (map fst cs)"
    by (cases cs) simp_all
  with Cons.prems have "sum_list (map fst (tl cs)) < 1000"
    by simp
  from Cons.IH [OF this, of "c + g"] Cons.prems show ?case
    by (auto simp: x)
qed

lemma last_due:
  assumes "cs \<noteq> []"
  shows "c + sum_list (map fst cs) + 1000 \<in> set (dues c cs)"
  using assms
proof (induction cs arbitrary: c)
  case Nil
  then show ?case by simp
next
  case (Cons x cs)
  obtain g h p where x: "x = (g, h, p)" by (cases x)
  show ?case
  proof (cases "cs = []")
    case True
    then show ?thesis by (simp add: x)
  next
    case False
    from Cons.IH [OF this, of "c + g"] show ?thesis
      by (simp add: x add.assoc)
  qed
qed

lemma length_dues [simp]: "length (dues c cs) = length cs"
  by (induction c cs rule: dues.induct) simp_all


lemma unchanged_url:
  assumes "lastUrl w = href (doc w)"
  shows "step Mutation w = w"
  using assms by (simp add: observer_callback_def)

lemma filter_all:
  assumes "\<forall>x \<in> set xs. P x"
  shows "filter P xs = xs"
  using assms by (simp only: filter_id_conv)

lemma filter_none:
  assumes "\<forall>x \<in> set xs. \<not> P x"
  shows "filter P xs = []"
  using assms by (simp only: filter_empty_conv)

text \<open>
  Claim C9, as the code has it.  The callback calls \<^verbatim>\<open>setTimeout\<close> for every URL change
  it sees and never \<^verbatim>\<open>clearTimeout\<close>.  Take a state in which \<^verbatim>\<open>lastUrl\<close> is the current
  URL and no pending re-evaluation is due yet, and any sequence of URL changes (each to a
  URL other than the one before) with any time between them.  Then the pending
  re-evaluations afterwards are exactly those, of the earlier ones and of the ones set for
  these changes (one for each change, due one settle delay after it), whose time has not
  come: nothing but the passing of its own delay removes one.  So when all changes after
  the first come within the settle delay, every change has its own pending re-evaluation.
  Once a settle delay has passed after the last change, all of them have fired, and each
  firing runs \<^verbatim>\<open>showAnalyzeButton\<close>: on a product page the button and the panel are then
  there.  A mutation without a URL change sets no timer.
\<close>

theorem pending_reevaluations:
  assumes "lastUrl w = href (doc w)"
    and "distinct_adj (href (doc w) # map (\<lambda>ch. fst (snd ch)) cs)"
    and "\<forall>due \<in> set (timers w). clock w < due"
  shows
   "timers (run (staggered cs) w) =
      filter (\<lambda>due. clock w + sum_list (map fst cs) < due) (timers w @ dues (clock w) cs) \<and>
    (sum_list (map fst (tl cs)) < 1000 \<and>
     (\<forall>due \<in> set (timers w). clock w + sum_list (map fst cs) < due) \<longrightarrow>
       timers (run (staggered cs) w) = timers w @ dues (clock w) cs \<and>
       length (timers (run (staggered cs) w)) = length (timers w) + length cs) \<and>
    (cs \<noteq> [] \<and> 1000 \<le> d \<longrightarrow>
       timers (run (staggered cs @ [Advance d]) w) =
         filter (\<lambda>due. clock w + sum_list (map fst cs) + d < due) (timers w) \<and>
       (isProductPage (doc (run (staggered cs) w)) \<longrightarrow>
          analyze_btn (doc (run (staggered cs @ [Advance d]) w)) = Some createAnalyzeButton \<and>
          results_panel (doc (run (staggered cs @ [Advance d]) w)) \<noteq> None)) \<and>
    timers (run [Mutation] w) = timers w"
proof -
  define E where "E = clock w + sum_list (map fst cs)"
  define w' where "w' = run (staggered cs) w"
  from staggered_run [OF assms]
  have tm: "timers w' = filter (\<lambda>due. E < due) (timers w @ dues (clock w) cs)"
    and ck: "clock w' = E"
    by (simp_all add: w'_def E_def)
  have B: "timers w' = timers w @ dues (clock w) cs \<and>
       length (timers w') = length (timers w) + length cs"
    if "sum_list (map fst (tl cs)) < 1000" "\<forall>due \<in> set (timers w). E < due"
  proof -
    from dues_pending [OF that(1), of "clock w"] that(2)
    have "\<forall>due \<in> set (timers w @ dues (clock w) cs). E < due"
      by (auto simp: E_def)
    then have "timers w' = timers w @ dues (clock w) cs"
      unfolding tm by (rule filter_all)
    then show ?thesis by simp
  qed
  have C1: "timers (advance d w') = filter (\<lambda>due. E + d < due) (timers w)"
    if "1000 \<le> d"
  proof -
    have "filter (\<lambda>due. E + d < due) (filter (\<lambda>due. E < due) (timers w @ dues (clock w) cs)) =
          filter (\<lambda>due. E + d < due) (timers w @ dues (clock w) cs)"
      by (rule filter_filter_weaker) simp
    moreover have "filter (\<lambda>due. E + d < due) (dues (clock w) cs) = []"
    proof (rule filter_none)
      from dues_le [of "clock w" cs] that
      show "\<forall>due \<in> set (dues (clock w) cs). \<not> E + d < due"
        by (auto simp: E_def)
    qed
    ultimately show ?thesis
      by (simp add: advance_fields tm ck)
  qed
  have C2: "analyze_btn (doc (advance d w')) = Some createAnalyzeButton \<and>
            results_panel (doc (advance d w')) \<noteq> None"
    if "cs \<noteq> []" "1000 \<le> d" "isProductPage (doc w')"
  proof -
    from last_due [OF that(1), of "clock w"] have "E + 1000 \<in> set (dues (clock w) cs)"
      by (simp add: E_def)
    then have mem: "E + 1000 \<in> set (timers w')"
      by (simp add: tm)
    from that(2) have le: "E + 1000 \<le> clock w' + d"
      by (simp add: ck)
    have "filter (\<lambda>due. due \<le> clock w' + d) (timers w') \<noteq> []"
    proof
      assume "filter (\<lambda>due. due \<le> clock w' + d) (timers w') = []"
      then have "\<forall>due \<in> set (timers w'). \<not> due \<le> clock w' + d"
        by (simp only: filter_empty_conv)
      with mem le show False by blast
    qed
    from fold_showAnalyzeButton_product_page [OF this that(3)] show ?thesis
      unfolding advance_fields(5) .
  qed
  have r: "run (staggered cs @ [Advance d]) w = advance d w'"
    by (simp add: w'_def run_def)
  have D: "timers (run [Mutation] w) = timers w"
    using unchanged_url [OF assms(1)] by (simp add: run_def)
  show ?thesis
    unfolding r w'_def [symmetric] E_def [symmetric]
    using tm B C1 C2 D by blast
qed

theorem pending_reevaluations_witness:
  "lastUrl (init product_page 0) = href (doc (init product_page 0)) \<and>
   distinct_adj (href (doc (init product_page 0)) # map (\<lambda>ch. fst (snd ch)) staggered_changes) \<and>
   timers (init product_page 0) = [] \<and>
   timers (run (staggered staggered_changes) (init product_page 0)) = [1000, 1500] \<and>
   timers (run (staggered staggered_changes @ [Advance 1000]) (init product_page 0)) = [] \<and>
   analyze_btn (doc (run (staggered staggered_changes @ [Advance 1000]) (init product_page 0))) =
     Some createAnalyzeButton"
proof -
  let ?w = "init product_page 0"
  have h1: "lastUrl ?w = href (doc ?w)"
    by (simp add: init_def)
  have h2: "distinct_adj (href (doc ?w) # map (\<lambda>ch. fst (snd ch)) staggered_changes)"
    by (simp add: init_def product_page_def staggered_changes_def)
  have t: "timers ?w = []" "clock ?w = 0"
    by (simp_all add: init_def)
  then have h3: "\<forall>due \<in> set (timers ?w). clock ?w < due"
    by simp
  have g: "sum_list (map fst (tl staggered_changes)) < 1000"
    "sum_list (map fst staggered_changes) = 500" "staggered_changes \<noteq> []"
    "dues 0 staggered_changes = [1000, 1500]"
    by (simp_all add: staggered_changes_def)
  have pp: "isProductPage (doc (run (staggered staggered_changes) ?w))"
    by (simp add: staggered_changes_def staggered_def run_def init_def advance_def
        observer_callback_def setTimeout_def Let_def isProductPage_def product_page_def
        showAnalyzeButton_def)
  note w = pending_reevaluations [OF h1 h2 h3, of 1000]
  have a: "timers (run (staggered staggered_changes) ?w) = [1000, 1500]"
    using w g t by simp
  have b: "timers (run (staggered staggered_changes @ [Advance 1000]) ?w) = []"
    using w g t by simp
  have c: "analyze_btn (doc (run (staggered staggered_changes @ [Advance 1000]) ?w)) =
      Some createAnalyzeButton"
    using w g pp by simp
  from h1 h2 t(1) a b c show ?thesis
    by (intro conjI)
qed

text \<open>
  Claim C9 as stated fails: after two URL changes within the settle delay two
  re-evaluations are pending, the second did not replace the first.
\<close>

theorem stacked_timers_counterexample:
  "timers (run (url_changes two_changes) (init product_page 0)) = [1000, 1000] \<and>
   length (timers (run (url_changes two_changes) (init product_page 0))) = 2"
  by (simp add: url_changes_def two_changes_def run_def init_def observer_callback_def
      setTimeout_def showAnalyzeButton_def product_page_def Let_def)

section \<open>Claims about rendering in the web app\<close>

lemma DealAnalysisCard_missing:
  assumes "deal a = None \<or> inflation a = None"
  shows "\<exists>m. DealAnalysisCard (deal a) (inflation a) = Inl (TypeError m)"
proof (cases "deal a")
  case None
  then show ?thesis
    by (simp add: DealAnalysisCard_def undefined_read_def)
next
  case (Some d)
  with assms have "inflation a = None" by simp
  with Some show ?thesis
    by (simp add: DealAnalysisCard_def undefined_read_def)
qed

lemma DealAnalysisCard_present:
  assumes "deal a = Some d" and "inflation a = Some i"
  shows "\<exists>dc. DealAnalysisCard (deal a) (inflation a) = Inr dc"
  using assms by (simp add: DealAnalysisCard_def)

lemma render_analysis_Inl:
  assumes "DealAnalysisCard (deal a) (inflation a) = Inl e"
  shows "render_analysis a = Inl e"
  using assms by (simp add: render_analysis_def)

lemma render_analysis_Inr:
  assumes "DealAnalysisCard (deal a) (inflation a) = Inr dc"
  shows "\<exists>v. render_analysis a = Inr v \<and> view_chart v = PriceHistoryChart (price_history a)"
proof -
  let ?v = "\<lparr> view_title = title (product_data a),
                view_image = image_url (product_data a),
                view_verdict = verdict a,
                view_verdict_style = getVerdictStyle (verdict a),
                view_confidence = confidence_score a,
                view_deal = dc,
                view_score = impulse_score a,
                view_score_color = app_getScoreColor (impulse_score a),
                view_score_width = score_fill_width a,
                view_chart = PriceHistoryChart (price_history a),
                view_factors = ImpulseFactors (impulse_factors a),
                view_alternatives = map (\<lambda>alt. (alt_title alt, savings_framing alt)) (alternatives a),
                view_pros = pros a,
                view_cons = cons a,
                view_recommendation = recommendation a \<rparr>"
  have "render_analysis a = Inr ?v"
    unfolding render_analysis_def assms by (simp only: sum.case)
  moreover have "view_chart ?v = PriceHistoryChart (price_history a)"
    by (simp only: app_view.select_convs)
  ultimately show ?thesis by (rule_tac x = ?v in exI) (rule conjI)
qed

lemma render_results_Inl:
  assumes "render_analysis a = Inl e"
  shows "render_results (st\<lparr>analysis := Some (Json (ResultBody a))\<rparr>) = Inl e"
  using assms by (simp add: render_results_def)


text \<open>
  Claim C10.  When an analysis result lacks \<^verbatim>\<open>deal_analysis\<close> or \<^verbatim>\<open>inflation_analysis\<close>,
  \<^verbatim>\<open>DealAnalysisCard\<close> throws a \<^verbatim>\<open>TypeError\<close> and so does the rendering of the whole results
  block: nothing of the result is displayed.  The block renders exactly when both fields
  are present; the third optional field, \<^verbatim>\<open>price_history\<close>, may be missing, then only the
  chart is left out.
\<close>

theorem deal_card_required:
  "((deal a = None \<or> inflation a = None) \<longrightarrow>
      (\<exists>m. DealAnalysisCard (deal a) (inflation a) = Inl (TypeError m)) \<and>
      (\<exists>m. render_analysis a = Inl (TypeError m)) \<and>
      (\<exists>m. render_results (st\<lparr>analysis := Some (Json (ResultBody a))\<rparr>) = Inl (TypeError m))) \<and>
   ((\<exists>v. render_analysis a = Inr v) \<longleftrightarrow> deal a \<noteq> None \<and> inflation a \<noteq> None) \<and>
   (deal a \<noteq> None \<and> inflation a \<noteq> None \<and> price_history a = None \<longrightarrow>
      (\<exists>v. render_analysis a = Inr v \<and> view_chart v = None))"
proof (intro conjI impI)
  assume missing: "deal a = None \<or> inflation a = None"
  then obtain m where m: "DealAnalysisCard (deal a) (inflation a) = Inl (TypeError m)"
    using DealAnalysisCard_missing by blast
  then show "\<exists>m. DealAnalysisCard (deal a) (inflation a) = Inl (TypeError m)" ..
  from m have r: "render_analysis a = Inl (TypeError m)"
    by (rule render_analysis_Inl)
  then show "\<exists>m. render_analysis a = Inl (TypeError m)" ..
  from r have "render_results (st\<lparr>analysis := Some (Json (ResultBody a))\<rparr>) = Inl (TypeError m)"
    by (rule render_results_Inl)
  then show "\<exists>m. render_results (st\<lparr>analysis := Some (Json (ResultBody a))\<rparr>) = Inl (TypeError m)" ..
next
  show "(\<exists>v. render_analysis a = Inr v) \<longleftrightarrow> deal a \<noteq> None \<and> inflation a \<noteq> None"
  proof
    assume "\<exists>v. render_analysis a = Inr v"
    then obtain v where v: "render_analysis a = Inr v" ..
    show "deal a \<noteq> None \<and> inflation a \<noteq> None"
    proof (rule ccontr)
      assume "\<not> (deal a \<noteq> None \<and> inflation a \<noteq> None)"
      then have "deal a = None \<or> inflation a = None" by simp
      then obtain m where "DealAnalysisCard (deal a) (inflation a) = Inl (TypeError m)"
        using DealAnalysisCard_missing by blast
      then have "render_analysis a = Inl (TypeError m)"
        by (rule render_analysis_Inl)
      with v show False by simp
    qed
  next
    assume "deal a \<noteq> None \<and> inflation a \<noteq> None"
    then obtain d i where "deal a = Some d" "inflation a = Some i" by auto
    then obtain dc where "DealAnalysisCard (deal a) (inflation a) = Inr dc"
      using DealAnalysisCard_present by blast
    from render_analysis_Inr [OF this] show "\<exists>v. render_analysis a = Inr v"
      by (elim exE conjE) (rule exI)
  qed
next
  assume "deal a \<noteq> None \<and> inflation a \<noteq> None \<and> price_history a = None"
  then obtain d i where di: "deal a = Some d" "inflation a = Some i" and ph: "price_history a = None"
    by auto
  from di obtain dc where "DealAnalysisCard (deal a) (inflation a) = Inr dc"
    using DealAnalysisCard_present by blast
  from render_analysis_Inr [OF this] obtain v where
    v: "render_analysis a = Inr v" "view_chart v = PriceHistoryChart (price_history a)"
    by (elim exE conjE)
  have "PriceHistoryChart None = None"
    by (simp add: PriceHistoryChart_def)
  with v(2) ph have "view_chart v = None" by simp
  with v(1) show "\<exists>v. render_analysis a = Inr v \<and> view_chart v = None"
    by (intro exI conjI)
qed


theorem deal_card_required_witness:
  "deal sample_result = None \<and>
   (\<exists>m. render_analysis sample_result = Inl (TypeError m)) \<and>
   (\<exists>m. render_results (app_showing sample_result) = Inl (TypeError m))"
proof -
  have h: "deal sample_result = None"
    by (simp add: sample_result_def)
  have s: "(app_showing sample_result)\<lparr>analysis := Some (Json (ResultBody sample_result))\<rparr> =
      app_showing sample_result"
    by (simp add: app_showing_def)
  from h have missing: "deal sample_result = None \<or> inflation sample_result = None" ..
  have "(\<exists>m. DealAnalysisCard (deal sample_result) (inflation sample_result) = Inl (TypeError m)) \<and>
        (\<exists>m. render_analysis sample_result = Inl (TypeError m)) \<and>
        (\<exists>m. render_results ((app_showing sample_result)\<lparr>analysis := Some (Json (ResultBody sample_result))\<rparr>) =
           Inl (TypeError m))"
    by (rule mp [OF deal_card_required [of sample_result "app_showing sample_result", THEN conjunct1]
          missing])
  then have "(\<exists>m. render_analysis sample_result = Inl (TypeError m)) \<and>
        (\<exists>m. render_results ((app_showing sample_result)\<lparr>analysis := Some (Json (ResultBody sample_result))\<rparr>) =
           Inl (TypeError m))"
    by (rule conjunct2)
  then have "(\<exists>m. render_analysis sample_result = Inl (TypeError m)) \<and>
        (\<exists>m. render_results (app_showing sample_result) = Inl (TypeError m))"
    by (simp only: s)
  with h show ?thesis ..
qed



section \<open>Claims about the triggering control\<close>


lemma content_showError_btn [simp]: "analyze_btn (content_showError m pg) = analyze_btn pg"
  by (simp add: content_showError_def split: option.splits)

lemma content_showResults_btn [simp]: "analyze_btn (snd (content_showResults d pg)) = analyze_btn pg"
  by (simp add: content_showResults_def split: option.splits json.splits)

lemma content_response_btn [simp]: "analyze_btn (snd (content_response answer pg)) = analyze_btn pg"
  by (cases answer) (auto simp: content_response_def split: sum.splits)


lemma set_button_panel [simp]: "results_panel (set_button l pe pg) = results_panel pg"
  by (simp add: set_button_def)























end
